theory Spec2Isabelle
  imports Main
begin

section \<open>The prediction driver \<^verbatim>\<open>classy/predict.py\<close>\<close>

text \<open>
  A shallow embedding of the command-line prediction driver.  The driver is glue around
  collaborators that are not part of the module (the fitted pipeline, the loaders of
  \<^verbatim>\<open>.data\<close>, the row decoders of \<^verbatim>\<open>.extract\<close> and \<^verbatim>\<open>.transform\<close>); they are
  parameters of the model.  Exceptions are values, and what the driver prints and which
  collaborator calls it makes are kept in an explicit world that every function returns,
  also when it fails: a line printed before an exception stays printed.
\<close>

subsection \<open>Python values\<close>

text \<open>What \<^verbatim>\<open>print\<close> may be handed as an identifier or a label: a string or an integer.\<close>

datatype pyval = PStr string | PInt int

text \<open>
  A Python \<^verbatim>\<open>float\<close>: a finite value \<open>(-1)\<^sup>s \<sqdot> m \<sqdot> 2\<^sup>e\<close> (sign bit, mantissa,
  exponent; every finite double is such a dyadic number), an infinity with its sign, or
  a NaN.
\<close>

datatype pyfloat = Finite bool nat int | Infinite bool | NaN

text \<open>
  One row of what \<^verbatim>\<open>predict_proba\<close> or \<^verbatim>\<open>decision_function\<close> returns: a single
  float (a one-dimensional result) or a vector of floats (a two-dimensional result).
\<close>

datatype score_row = Scalar pyfloat | Vec "pyfloat list"

text \<open>
  An exception raised inside a collaborator is known by the name of its class and by
  whether that class is \<^verbatim>\<open>AttributeError\<close> or derives from it, which is all an
  \<^verbatim>\<open>except AttributeError\<close> clause asks.  The exceptions the driver raises itself have
  a constructor each; \<open>Propagated\<close> is a collaborator's exception on its way through
  the driver.
\<close>

datatype exn = Exn (class_name: string) (attribute_error: bool)

datatype error =
    ValueError string
  | AssertionError string
  | IndexError
  | AttributeError
  | Propagated exn

text \<open>The command-line arguments (the \<^verbatim>\<open>args\<close> namespace).\<close>

record 'c args =
  arg_text :: bool
  arg_index :: "string list option"
  arg_model :: string
  arg_scores :: bool
  arg_label :: "string list option"
  arg_vocabulary :: "string option"
  arg_csv :: bool
  arg_encoding :: string
  arg_annotate :: 'c
  arg_feature :: 'c
  arg_no_id :: bool
  arg_id_second :: bool
  arg_id_last :: bool

text \<open>Truth value of a Python object that is \<^verbatim>\<open>None\<close> or a list.\<close>

definition truthy :: "'a list option \<Rightarrow> bool" where
  "truthy x = (case x of None \<Rightarrow> False | Some xs \<Rightarrow> xs \<noteq> [])"

subsection \<open>Identifier column\<close>

text \<open>\<^verbatim>\<open>find_id_col\<close>: \<open>None\<close> is Python's \<^verbatim>\<open>None\<close> (no identifier column).\<close>

definition find_id_col :: "'c args \<Rightarrow> int option" where
  "find_id_col a =
     (if arg_no_id a then None
      else if arg_id_second a then Some 1
      else if arg_id_last a then Some (- 1)
      else Some 0)"

text \<open>A sample invocation, all flags off; the examples below switch flags on.\<close>

definition plain_args :: "unit args" where
  "plain_args = \<lparr> arg_text = False, arg_index = None, arg_model = ''model.pkl'',
     arg_scores = False, arg_label = None, arg_vocabulary = None, arg_csv = False,
     arg_encoding = ''utf-8'', arg_annotate = (), arg_feature = (),
     arg_no_id = False, arg_id_second = False, arg_id_last = False \<rparr>"

subsection \<open>Rendering\<close>

abbreviation (input) TAB :: char where "TAB \<equiv> CHR 0x09"

abbreviation (input) NL :: char where "NL \<equiv> CHR 0x0A"

definition digit_char :: "nat \<Rightarrow> char" where
  "digit_char d = ''0123456789'' ! d"

text \<open>Decimal digits of a natural number, as \<^verbatim>\<open>str\<close> prints them.\<close>

fun str_nat :: "nat \<Rightarrow> string" where
  "str_nat n = (if n < 10 then [digit_char n] else str_nat (n div 10) @ [digit_char (n mod 10)])"

declare str_nat.simps [simp del]

definition str_int :: "int \<Rightarrow> string" where
  "str_int i = (if i < 0 then CHR ''-'' # str_nat (nat (- i)) else str_nat (nat i))"

text \<open>What \<^verbatim>\<open>print\<close> writes for a value.\<close>

fun py_str :: "pyval \<Rightarrow> string" where
  "py_str (PStr s) = s"
| "py_str (PInt i) = str_int i"

text \<open>\<^verbatim>\<open>sep.join(xs)\<close>.\<close>

fun py_join :: "string \<Rightarrow> string list \<Rightarrow> string" where
  "py_join sep [] = []"
| "py_join sep [x] = x"
| "py_join sep (x # y # ys) = x @ sep @ py_join sep (y # ys)"

text \<open>
  The format \<^verbatim>\<open>'{: 0.8f}'\<close> of a float.  The sign slot holds a minus for a set sign
  bit and a space otherwise (the flag is a space; the \<^verbatim>\<open>0\<close> before the absent width
  pads nothing).  A finite value is rounded to 8 decimals, ties to even, on its exact
  value: \<open>scaled8 m e\<close> is \<open>m \<sqdot> 2\<^sup>e \<sqdot> 10\<^sup>8\<close> rounded to an integer.  An infinity and a
  NaN are spelled out and have no digits.
\<close>

definition round_half_even :: "nat \<Rightarrow> nat \<Rightarrow> nat" where
  "round_half_even num den =
     (let q = num div den; r = num mod den
      in if den < 2 * r \<or> (2 * r = den \<and> odd q) then q + 1 else q)"

definition scaled8 :: "nat \<Rightarrow> int \<Rightarrow> nat" where
  "scaled8 m e =
     (if 0 \<le> e then m * 2 ^ nat e * 10 ^ 8
      else round_half_even (m * 10 ^ 8) (2 ^ nat (- e)))"

definition frac8 :: "nat \<Rightarrow> string" where
  "frac8 n = map (\<lambda>k. digit_char (n div 10 ^ k mod 10)) [7, 6, 5, 4, 3, 2, 1, 0]"

definition sign_char :: "bool \<Rightarrow> char" where
  "sign_char neg = (if neg then CHR ''-'' else CHR '' '')"

fun format_score :: "pyfloat \<Rightarrow> string" where
  "format_score (Finite neg m e) =
     sign_char neg # str_nat (scaled8 m e div 10 ^ 8) @ ''.'' @ frac8 (scaled8 m e mod 10 ^ 8)"
| "format_score (Infinite neg) = sign_char neg # ''inf''"
| "format_score NaN = '' nan''"

text \<open>
  The score string of \<^verbatim>\<open>report_with_scores\<close> and \<^verbatim>\<open>append_scores\<close>: a float
  becomes the one-element tuple, then the formatted scores are joined with tabs.
\<close>

definition score_str :: "score_row \<Rightarrow> string" where
  "score_str i_scores =
     (let i_scores' = (case i_scores of Scalar s \<Rightarrow> [s] | Vec ss \<Rightarrow> ss)
      in py_join [TAB] (map format_score i_scores'))"

text \<open>
  A field in fixed 8-decimal notation with a sign slot: a minus or a space, at least one
  digit, a point, exactly eight digits.
\<close>

definition is_digit :: "char \<Rightarrow> bool" where
  "is_digit c = (c \<in> set ''0123456789'')"

definition fixed8 :: "string \<Rightarrow> bool" where
  "fixed8 str =
     (case str of
        [] \<Rightarrow> False
      | c # rest \<Rightarrow>
          (c = CHR ''-'' \<or> c = CHR '' '') \<and>
          (let ip = takeWhile is_digit rest; fp = drop (length ip) rest
           in ip \<noteq> [] \<and>
              (case fp of
                 [] \<Rightarrow> False
               | d # ds \<Rightarrow> d = CHR ''.'' \<and> length ds = 8 \<and> list_all is_digit ds)))"

text \<open>
  Reading a printed number back: the value of a string of decimal digits.
\<close>

definition digit_value :: "char \<Rightarrow> nat" where
  "digit_value c = of_char c - 48"

definition digits_value :: "string \<Rightarrow> nat" where
  "digits_value ds = foldl (\<lambda>acc c. 10 * acc + digit_value c) 0 ds"

text \<open>The number of tab-separated fields of a line.\<close>

definition n_fields :: "string \<Rightarrow> nat" where
  "n_fields str = Suc (length (filter (\<lambda>c. c = TAB) str))"

text \<open>The number of newline-terminated lines of an output.\<close>

definition count_lines :: "string \<Rightarrow> nat" where
  "count_lines out = length (filter (\<lambda>c. c = NL) out)"

subsection \<open>Labels\<close>

text \<open>
  \<^verbatim>\<open>xs[i]\<close> on a list: a negative index counts from the end, and an index outside
  \<open>-len(xs) \<le> i < len(xs)\<close> raises \<^verbatim>\<open>IndexError\<close>.
\<close>

definition py_index :: "'a list \<Rightarrow> int \<Rightarrow> error + 'a" where
  "py_index xs i =
     (let n = int (length xs)
      in if i < - n \<or> n \<le> i then Inl IndexError
         else if i < 0 then Inr (xs ! nat (n + i))
         else Inr (xs ! nat i))"

text \<open>
  The resolver \<^verbatim>\<open>lambda i: args.label[i] if i < n_labels else i\<close> of
  \<^verbatim>\<open>batch_predictor\<close> and \<^verbatim>\<open>predict_from\<close>.
\<close>

definition label_lambda :: "string list \<Rightarrow> int \<Rightarrow> error + pyval" where
  "label_lambda L i =
     (let n_labels = int (length L)
      in if i < n_labels
         then (case py_index L i of Inl e \<Rightarrow> Inl e | Inr name \<Rightarrow> Inr (PStr name))
         else Inr (PInt i))"

text \<open>\<^verbatim>\<open>make_label\<close>: \<^verbatim>\<open>str\<close>, unless \<^verbatim>\<open>args.label\<close> is truthy.\<close>

definition make_label :: "'c args \<Rightarrow> int \<Rightarrow> error + pyval" where
  "make_label a =
     (if truthy (arg_label a) then label_lambda (the (arg_label a))
      else (\<lambda>i. Inr (PStr (str_int i))))"

subsection \<open>Collaborators and the world\<close>

text \<open>
  The fitted pipeline.  \<^verbatim>\<open>predict\<close> is always there; \<^verbatim>\<open>predict_proba\<close> and
  \<^verbatim>\<open>decision_function\<close> are attributes a pipeline may lack (\<open>None\<close>: looking the
  attribute up raises \<^verbatim>\<open>AttributeError\<close>).  A method that is there may still raise.
  \<open>'x\<close> is the type of feature matrices; a result has one entry per row.
\<close>

record 'x pipeline =
  predict :: "'x \<Rightarrow> exn + int list"
  predict_proba :: "('x \<Rightarrow> exn + score_row list) option"
  decision_function :: "('x \<Rightarrow> exn + score_row list) option"

text \<open>
  What \<^verbatim>\<open>load_index\<close> returns: the feature matrix (\<^verbatim>\<open>data.index.tocsr()\<close>; the change
  of sparse format is not modelled) and the text identifiers, which may be \<^verbatim>\<open>None\<close>.
\<close>

record 'x data =
  index :: 'x
  text_ids :: "pyval list option"

text \<open>
  The functions the driver imports.  \<open>'g\<close> is the type of raw row generators;
  \<open>row_generator\<close> is \<^verbatim>\<open>row_generator(sys.stdin, dialect=...)\<close>.  \<open>feature_encoder\<close>
  stands for \<^verbatim>\<open>transform_input\<close> followed by \<^verbatim>\<open>FeatureEncoder\<close> with
  \<^verbatim>\<open>label_col=None\<close>: the pairs of identifier and feature row the encoder yields for a
  row generator, the arguments, the vocabulary and the identifier column.
  The stream is lazy: an exception raised while decoding is an \<open>Inl\<close> item, met when
  the loop reaches it.
\<close>

record ('x, 'v, 'c, 'g) collab =
  load_index :: "string \<Rightarrow> exn + 'x data"
  get_n_rows :: "'x data \<Rightarrow> int"
  load_vocabulary :: "string \<Rightarrow> exn + 'v"
  fix_column_offset :: "'c \<Rightarrow> 'c"
  joblib_load :: "string \<Rightarrow> exn + 'x pipeline"
  row_generator :: "string \<Rightarrow> 'g"
  row_generator_from_file :: "string \<Rightarrow> string \<Rightarrow> string \<Rightarrow> 'g"
  feature_encoder :: "'g \<Rightarrow> 'c args \<Rightarrow> 'v \<Rightarrow> int option \<Rightarrow> (exn + pyval \<times> 'x) list"

text \<open>
  The world: the text written to standard output, and the calls made on the model file
  and on the pipeline, in order.  A pipeline call is recorded when the driver evaluates
  the call expression, whether or not the attribute is there.
\<close>

datatype 'x call =
    JoblibLoad string
  | CallPredict 'x
  | CallPredictProba 'x
  | CallDecisionFunction 'x

record 'x world =
  stdout :: string
  calls :: "'x call list"

definition emit :: "string \<Rightarrow> 'x world \<Rightarrow> 'x world" where
  "emit s w = w\<lparr>stdout := stdout w @ s\<rparr>"

definition log_call :: "'x call \<Rightarrow> 'x world \<Rightarrow> 'x world" where
  "log_call c w = w\<lparr>calls := calls w @ [c]\<rparr>"

definition propagate :: "exn + 'a \<Rightarrow> error + 'a" where
  "propagate r = (case r of Inl e \<Rightarrow> Inl (Propagated e) | Inr x \<Rightarrow> Inr x)"

text \<open>\<^verbatim>\<open>pipeline.method(X)\<close> for a method that may be missing.\<close>

definition call_method :: "('x \<Rightarrow> exn + 'r) option \<Rightarrow> 'x \<Rightarrow> error + 'r" where
  "call_method m X = (case m of None \<Rightarrow> Inl AttributeError | Some f \<Rightarrow> propagate (f X))"

text \<open>What \<^verbatim>\<open>except AttributeError\<close> catches.\<close>

definition is_attribute_error :: "error \<Rightarrow> bool" where
  "is_attribute_error e =
     (case e of AttributeError \<Rightarrow> True | Propagated x \<Rightarrow> attribute_error x | _ \<Rightarrow> False)"

subsection \<open>Batch mode\<close>

definition get_scores :: "'x pipeline \<Rightarrow> 'x data \<Rightarrow> 'x world \<Rightarrow> (error + score_row list) \<times> 'x world" where
  "get_scores p d w =
     (let w1 = log_call (CallPredictProba (index d)) w
      in case call_method (predict_proba p) (index d) of
           Inr s \<Rightarrow> (Inr s, w1)
         | Inl e \<Rightarrow>
             if is_attribute_error e
             then (call_method (decision_function p) (index d),
                   log_call (CallDecisionFunction (index d)) w1)
             else (Inl e, w1))"

definition get_or_make_text_ids :: "('x, 'v, 'c, 'g) collab \<Rightarrow> 'x data \<Rightarrow> pyval list" where
  "get_or_make_text_ids env d =
     (if truthy (text_ids d) then the (text_ids d)
      else map PInt [1 .. get_n_rows env d])"

text \<open>The loop of \<^verbatim>\<open>report_labels\<close> over the zipped identifiers and predictions.\<close>

fun report_rows :: "(int \<Rightarrow> error + pyval) \<Rightarrow> (pyval \<times> int) list \<Rightarrow> 'x world \<Rightarrow> (error + unit) \<times> 'x world" where
  "report_rows mk [] w = (Inr (), w)"
| "report_rows mk ((text_id, prediction) # rest) w =
     (case mk prediction of
        Inl e \<Rightarrow> (Inl e, w)
      | Inr lab \<Rightarrow> report_rows mk rest (emit (py_str text_id @ [TAB] @ py_str lab @ [NL]) w))"

definition report_labels :: "int list \<Rightarrow> pyval list \<Rightarrow> (int \<Rightarrow> error + pyval) \<Rightarrow> 'x world \<Rightarrow> (error + unit) \<times> 'x world" where
  "report_labels predictions ids mk w = report_rows mk (zip ids predictions) w"

text \<open>The loop of \<^verbatim>\<open>report_with_scores\<close>; the score string is built before the label.\<close>

fun report_score_rows :: "(int \<Rightarrow> error + pyval) \<Rightarrow> (pyval \<times> int \<times> score_row) list \<Rightarrow> 'x world \<Rightarrow> (error + unit) \<times> 'x world" where
  "report_score_rows mk [] w = (Inr (), w)"
| "report_score_rows mk ((text_id, prediction, i_scores) # rest) w =
     (let s = score_str i_scores
      in case mk prediction of
           Inl e \<Rightarrow> (Inl e, w)
         | Inr lab \<Rightarrow>
             report_score_rows mk rest
               (emit (py_str text_id @ [TAB] @ py_str lab @ [TAB] @ s @ [NL]) w))"

definition report_with_scores :: "int list \<Rightarrow> score_row list \<Rightarrow> pyval list \<Rightarrow> (int \<Rightarrow> error + pyval) \<Rightarrow> 'x world \<Rightarrow> (error + unit) \<times> 'x world" where
  "report_with_scores predictions scores ids mk w =
     report_score_rows mk (zip ids (zip predictions scores)) w"

definition batch_predictor :: "('x, 'v, 'c, 'g) collab \<Rightarrow> 'c args \<Rightarrow> 'x world \<Rightarrow> (error + unit) \<times> 'x world" where
  "batch_predictor env a w =
     (if \<not> truthy (arg_index a)
      then (Inl (ValueError ''missing input data file (inverted index)''), w)
      else if 1 < length (the (arg_index a))
      then (Inl (ValueError ''more than one input data file (inverted index)''), w)
      else
        case load_index env (the (arg_index a) ! 0) of
          Inl e \<Rightarrow> (Inl (Propagated e), w)
        | Inr d \<Rightarrow>
           (let w1 = log_call (JoblibLoad (arg_model a)) w
            in case joblib_load env (arg_model a) of
                 Inl e \<Rightarrow> (Inl (Propagated e), w1)
               | Inr p \<Rightarrow>
                  (let w2 = log_call (CallPredict (index d)) w1
                   in case predict p (index d) of
                        Inl e \<Rightarrow> (Inl (Propagated e), w2)
                      | Inr predictions \<Rightarrow>
                          if arg_scores a
                          then (case get_scores p d w2 of
                                  (Inl e, w3) \<Rightarrow> (Inl e, w3)
                                | (Inr scores, w3) \<Rightarrow>
                                    report_with_scores predictions scores
                                      (get_or_make_text_ids env d) (make_label a) w3)
                          else report_labels predictions
                                 (get_or_make_text_ids env d) (make_label a) w2)))"

subsection \<open>Stream mode\<close>

text \<open>
  \<^verbatim>\<open>append_scores\<close>.  Its parameter \<^verbatim>\<open>no_proba\<close> is a local name: the assignment in
  the handler rebinds it inside the call, and the function returns nothing, so the new
  value (the second component below) is dropped when the call ends.
\<close>

definition first_row :: "score_row list \<Rightarrow> error + score_row" where
  "first_row rows = (case rows of [] \<Rightarrow> Inl IndexError | r # _ \<Rightarrow> Inr r)"

definition indexed_call :: "('x \<Rightarrow> exn + score_row list) option \<Rightarrow> 'x \<Rightarrow> error + score_row" where
  "indexed_call m X = (case call_method m X of Inl e \<Rightarrow> Inl e | Inr rows \<Rightarrow> first_row rows)"

definition fetch_scores :: "'x pipeline \<Rightarrow> 'x \<Rightarrow> bool \<Rightarrow> 'x world \<Rightarrow> (error + score_row \<times> bool) \<times> 'x world" where
  "fetch_scores p features no_proba w =
     (if no_proba
      then (case indexed_call (decision_function p) features of
              Inl e \<Rightarrow> (Inl e, log_call (CallDecisionFunction features) w)
            | Inr scores \<Rightarrow> (Inr (scores, no_proba), log_call (CallDecisionFunction features) w))
      else
        (let w1 = log_call (CallPredictProba features) w
         in case indexed_call (predict_proba p) features of
              Inr scores \<Rightarrow> (Inr (scores, no_proba), w1)
            | Inl e \<Rightarrow>
                if is_attribute_error e
                then (case indexed_call (decision_function p) features of
                        Inl e' \<Rightarrow> (Inl e', log_call (CallDecisionFunction features) w1)
                      | Inr scores \<Rightarrow>
                          (Inr (scores, True), log_call (CallDecisionFunction features) w1))
                else (Inl e, w1)))"

definition append_scores :: "'x pipeline \<Rightarrow> 'x \<Rightarrow> bool \<Rightarrow> 'x world \<Rightarrow> (error + unit) \<times> 'x world" where
  "append_scores p features no_proba w =
     (case fetch_scores p features no_proba w of
        (Inl e, w') \<Rightarrow> (Inl e, w')
      | (Inr (scores, no_proba'), w') \<Rightarrow> (Inr (), emit (score_str scores @ [NL]) w'))"

text \<open>The message of the assertion: the shape of a one-dimensional result.\<close>

definition shape_str :: "int list \<Rightarrow> string" where
  "shape_str prediction = ''('' @ str_nat (length prediction) @ '',)''"

text \<open>
  The body of the loop of \<^verbatim>\<open>predict_from\<close> for one decoded row; \<open>here\<close> ends the
  label, \<open>no_proba\<close> is the caller's variable.
\<close>

definition predict_row :: "'x pipeline \<Rightarrow> 'c args \<Rightarrow> string \<Rightarrow> bool \<Rightarrow> pyval \<times> 'x \<Rightarrow> 'x world \<Rightarrow> (error + unit) \<times> 'x world" where
  "predict_row p a here no_proba row w =
     (case row of (text_id, features) \<Rightarrow>
        (let w1 = log_call (CallPredict features) w
         in case predict p features of
              Inl e \<Rightarrow> (Inl (Propagated e), w1)
            | Inr prediction \<Rightarrow>
                if length prediction \<noteq> 1
                then (Inl (AssertionError (''not a single prediction: '' @ shape_str prediction)), w1)
                else
                  (case make_label a (prediction ! 0) of
                     Inl e \<Rightarrow> (Inl e, w1)
                   | Inr lab \<Rightarrow>
                      (let w2 = emit (py_str text_id @ [TAB] @ py_str lab @ here) w1
                       in if arg_scores a then append_scores p features no_proba w2
                          else (Inr (), w2)))))"

text \<open>
  The loop itself.  Nothing in it assigns \<^verbatim>\<open>no_proba\<close>, so every iteration runs with
  the value the loop was entered with.
\<close>

fun predict_rows :: "'x pipeline \<Rightarrow> 'c args \<Rightarrow> string \<Rightarrow> bool \<Rightarrow> (exn + pyval \<times> 'x) list \<Rightarrow> 'x world \<Rightarrow> (error + unit) \<times> 'x world" where
  "predict_rows p a here no_proba [] w = (Inr (), w)"
| "predict_rows p a here no_proba (Inl e # rest) w = (Inl (Propagated e), w)"
| "predict_rows p a here no_proba (Inr row # rest) w =
     (case predict_row p a here no_proba row w of
        (Inl e, w') \<Rightarrow> (Inl e, w')
      | (Inr u, w') \<Rightarrow> predict_rows p a here no_proba rest w')"

text \<open>
  \<^verbatim>\<open>predict_from\<close>.  Building the stream objects reads nothing yet: the model file is
  loaded before the first row is asked for.
\<close>

definition predict_from :: "('x, 'v, 'c, 'g) collab \<Rightarrow> 'g \<Rightarrow> 'c args \<Rightarrow> 'v \<Rightarrow> 'x world \<Rightarrow> (error + unit) \<times> 'x world" where
  "predict_from env text a vocab w =
     (let id_col = find_id_col a;
          stream = feature_encoder env text a vocab id_col;
          w1 = log_call (JoblibLoad (arg_model a)) w
      in case joblib_load env (arg_model a) of
           Inl e \<Rightarrow> (Inl (Propagated e), w1)
         | Inr p \<Rightarrow>
            (let here = (if arg_scores a then [TAB] else [NL]);
                 no_proba = False
             in predict_rows p a here no_proba stream w1))"

text \<open>The loop of \<^verbatim>\<open>stream_predictor\<close> over the input files.\<close>

fun predict_files :: "('x, 'v, 'c, 'g) collab \<Rightarrow> string \<Rightarrow> 'c args \<Rightarrow> 'v \<Rightarrow> string list \<Rightarrow> 'x world \<Rightarrow> (error + unit) \<times> 'x world" where
  "predict_files env dialect a vocab [] w = (Inr (), w)"
| "predict_files env dialect a vocab (file # files) w =
     (let gen = row_generator_from_file env file dialect (arg_encoding a)
      in case predict_from env gen a vocab w of
           (Inl e, w') \<Rightarrow> (Inl e, w')
         | (Inr u, w') \<Rightarrow> predict_files env dialect a vocab files w')"

definition stream_predictor :: "('x, 'v, 'c, 'g) collab \<Rightarrow> 'c args \<Rightarrow> 'x world \<Rightarrow> (error + unit) \<times> 'x world" where
  "stream_predictor env a w =
     (case arg_vocabulary a of
        None \<Rightarrow> (Inl (ValueError ''missing required option for text input: --vocabulary VOCAB''), w)
      | Some path \<Rightarrow>
         (case load_vocabulary env path of
            Inl e \<Rightarrow> (Inl (Propagated e), w)
          | Inr vocabulary \<Rightarrow>
             (let dialect = (if arg_csv a then ''excel'' else ''plain'');
                  a' = a\<lparr>arg_annotate := fix_column_offset env (arg_annotate a),
                         arg_feature := fix_column_offset env (arg_feature a)\<rparr>
              in if \<not> truthy (arg_index a')
                 then predict_from env (row_generator env dialect) a' vocabulary w
                 else predict_files env dialect a' vocabulary (the (arg_index a')) w)))"

subsection \<open>Entry point\<close>

definition predict_labels :: "('x, 'v, 'c, 'g) collab \<Rightarrow> 'c args \<Rightarrow> 'x world \<Rightarrow> (error + unit) \<times> 'x world" where
  "predict_labels env a w =
     (if arg_text a then stream_predictor env a w else batch_predictor env a w)"

subsection \<open>Reading the call log\<close>

text \<open>The number of times the model file has been deserialized.\<close>

definition is_load :: "'x call \<Rightarrow> bool" where
  "is_load c = (case c of JoblibLoad path \<Rightarrow> True | _ \<Rightarrow> False)"

definition loads :: "'x world \<Rightarrow> nat" where
  "loads w = length (filter is_load (calls w))"

text \<open>The feature rows of a decoded stream, in order.\<close>

fun row_features :: "(exn + pyval \<times> 'x) list \<Rightarrow> 'x list" where
  "row_features [] = []"
| "row_features (Inl e # rest) = row_features rest"
| "row_features (Inr (text_id, features) # rest) = features # row_features rest"

text \<open>The feature rows on which \<^verbatim>\<open>predict_proba\<close> was attempted, in order.\<close>

fun proba_attempts :: "'x call list \<Rightarrow> 'x list" where
  "proba_attempts [] = []"
| "proba_attempts (c # cs) =
     (case c of CallPredictProba x \<Rightarrow> x # proba_attempts cs | _ \<Rightarrow> proba_attempts cs)"

text \<open>
  Every call of \<^verbatim>\<open>decision_function\<close> in the log comes directly after an attempt of
  \<^verbatim>\<open>predict_proba\<close> on the same features; \<open>prev\<close> is the features of the attempt
  just before the list, if the call just before was one.
\<close>

fun fallback_follows :: "'x option \<Rightarrow> 'x call list \<Rightarrow> bool" where
  "fallback_follows prev [] = True"
| "fallback_follows prev (c # cs) =
     (case c of
        CallDecisionFunction y \<Rightarrow> prev = Some y \<and> fallback_follows None cs
      | CallPredictProba x \<Rightarrow> fallback_follows (Some x) cs
      | _ \<Rightarrow> fallback_follows None cs)"

subsection \<open>Sample collaborators\<close>

text \<open>
  Concrete collaborators for the examples.  Feature matrices are lists of row codes.
  One pipeline has \<^verbatim>\<open>predict_proba\<close> only, one has \<^verbatim>\<open>decision_function\<close> only, and
  one answers the row \<open>[7]\<close> with two predictions.  The index file has three rows and
  no identifiers, and every text source decodes to the same two rows.
\<close>

definition empty_world :: "nat list world" where
  "empty_world = \<lparr> stdout = [], calls = [] \<rparr>"

definition proba_pipeline :: "nat list pipeline" where
  "proba_pipeline = \<lparr> predict = (\<lambda>X. Inr (map (\<lambda>r. int r mod 2) X)),
     predict_proba = Some (\<lambda>X. Inr (map (\<lambda>r. Vec [Finite False 1 (- 2), Finite False 3 (- 2)]) X)),
     decision_function = None \<rparr>"

definition svm_pipeline :: "nat list pipeline" where
  "svm_pipeline = \<lparr> predict = (\<lambda>X. Inr (map (\<lambda>r. int r mod 2) X)),
     predict_proba = None,
     decision_function = Some (\<lambda>X. Inr (map (\<lambda>r. Scalar (Finite True 3 (- 1))) X)) \<rparr>"

definition faulty_pipeline :: "nat list pipeline" where
  "faulty_pipeline = \<lparr> predict = (\<lambda>X. if X = [7] then Inr [0, 1] else Inr (map (\<lambda>r. int r mod 2) X)),
     predict_proba = None, decision_function = None \<rparr>"

text \<open>A pipeline whose classes are signed: it predicts 1, -3 and 0 for the three rows.\<close>

definition signed_pipeline :: "nat list pipeline" where
  "signed_pipeline = \<lparr> predict = (\<lambda>X. Inr [1, - 3, 0]),
     predict_proba = None, decision_function = None \<rparr>"

definition sample_data :: "nat list data" where
  "sample_data = \<lparr> index = [4, 7, 9], text_ids = None \<rparr>"

definition sample_rows :: "(exn + pyval \<times> nat list) list" where
  "sample_rows = [Inr (PStr ''t1'', [4]), Inr (PStr ''t2'', [7])]"

definition sample_env :: "nat list pipeline \<Rightarrow> (nat list, unit, unit, string) collab" where
  "sample_env p = \<lparr> load_index = (\<lambda>path. Inr sample_data),
     get_n_rows = (\<lambda>d. int (length (index d))),
     load_vocabulary = (\<lambda>path. Inr ()),
     fix_column_offset = (\<lambda>c. c),
     joblib_load = (\<lambda>path. Inr p),
     row_generator = (\<lambda>dialect. ''stdin''),
     row_generator_from_file = (\<lambda>file dialect encoding. file),
     feature_encoder = (\<lambda>text a vocab id_col. sample_rows) \<rparr>"

definition batch_args :: "unit args" where
  "batch_args = plain_args\<lparr>arg_index := Some [''data.idx'']\<rparr>"

definition scored_args :: "unit args" where
  "scored_args = plain_args\<lparr>arg_text := True, arg_scores := True, arg_vocabulary := Some ''vocab''\<rparr>"

definition scored_batch_args :: "unit args" where
  "scored_batch_args = plain_args\<lparr>arg_index := Some [''data.idx''], arg_scores := True,
     arg_label := Some [''neg'', ''pos'']\<rparr>"

definition labelled_args :: "unit args" where
  "labelled_args = plain_args\<lparr>arg_index := Some [''data.idx''], arg_label := Some [''neg'', ''pos'']\<rparr>"

definition multiline_args :: "unit args" where
  "multiline_args = plain_args\<lparr>arg_index := Some [''data.idx''],
     arg_label := Some [[CHR ''a'', NL, CHR ''b''], ''c'']\<rparr>"

definition stream_args :: "unit args" where
  "stream_args = plain_args\<lparr>arg_text := True, arg_vocabulary := Some ''vocab''\<rparr>"

definition two_files_args :: "unit args" where
  "two_files_args = plain_args\<lparr>arg_text := True, arg_index := Some [''a.txt'', ''b.txt''],
     arg_vocabulary := Some ''vocab''\<rparr>"

section \<open>Properties\<close>

text \<open>The definitions a concrete run unfolds.\<close>

lemmas sample_defs = sample_env_def sample_data_def sample_rows_def plain_args_def empty_world_def
  proba_pipeline_def svm_pipeline_def faulty_pipeline_def batch_args_def scored_batch_args_def
  scored_args_def stream_args_def two_files_args_def signed_pipeline_def labelled_args_def
  multiline_args_def

lemmas run_defs = predict_from_def predict_row_def append_scores_def fetch_scores_def
  indexed_call_def call_method_def propagate_def first_row_def is_attribute_error_def
  make_label_def truthy_def log_call_def emit_def shape_str_def Let_def

lemmas batch_defs = batch_predictor_def report_labels_def report_with_scores_def
  get_or_make_text_ids_def get_scores_def label_lambda_def py_index_def

lemmas render_defs = score_str_def scaled8_def round_half_even_def frac8_def digit_char_def
  sign_char_def str_int_def str_nat.simps

subsection \<open>Identifier column precedence\<close>

text \<open>
  C1, as stated, fails: with \<^verbatim>\<open>--id_second\<close> and \<^verbatim>\<open>--no_id\<close> both set, the
  sequential conditionals reach the \<^verbatim>\<open>no_id\<close> branch first and there is no identifier
  column, rather than column 1.
\<close>

theorem find_id_col_id_second_counterexample:
  "arg_id_second (plain_args\<lparr>arg_no_id := True, arg_id_second := True\<rparr>) \<and>
   find_id_col (plain_args\<lparr>arg_no_id := True, arg_id_second := True\<rparr>) \<noteq> Some 1"
  by (simp add: find_id_col_def plain_args_def)

text \<open>
  C1, amended: the flags are resolved with the precedence
  no_id > id_second > id_last > first column.  With \<^verbatim>\<open>--no_id\<close> set there is no
  identifier column whatever the other flags are; with \<^verbatim>\<open>--id_second\<close> set and
  \<^verbatim>\<open>--no_id\<close> not set the identifier column is index 1 whether or not
  \<^verbatim>\<open>--id_last\<close> is set; \<^verbatim>\<open>--id_last\<close> alone gives index -1; no flag gives index 0.
\<close>

theorem find_id_col_precedence:
  "(arg_no_id a \<longrightarrow> find_id_col a = None) \<and>
   (\<not> arg_no_id a \<and> arg_id_second a \<longrightarrow> find_id_col a = Some 1) \<and>
   (\<not> arg_no_id a \<and> \<not> arg_id_second a \<and> arg_id_last a \<longrightarrow> find_id_col a = Some (- 1)) \<and>
   (\<not> arg_no_id a \<and> \<not> arg_id_second a \<and> \<not> arg_id_last a \<longrightarrow> find_id_col a = Some 0)"
  by (simp add: find_id_col_def)

theorem find_id_col_precedence_witness:
  "find_id_col (plain_args\<lparr>arg_no_id := True, arg_id_second := True, arg_id_last := True\<rparr>) = None \<and>
   find_id_col (plain_args\<lparr>arg_id_second := True, arg_id_last := True\<rparr>) = Some 1 \<and>
   find_id_col (plain_args\<lparr>arg_id_last := True\<rparr>) = Some (- 1) \<and>
   find_id_col plain_args = Some 0"
  using find_id_col_precedence [of "plain_args\<lparr>arg_no_id := True, arg_id_second := True, arg_id_last := True\<rparr>"]
        find_id_col_precedence [of "plain_args\<lparr>arg_id_second := True, arg_id_last := True\<rparr>"]
        find_id_col_precedence [of "plain_args\<lparr>arg_id_last := True\<rparr>"]
        find_id_col_precedence [of plain_args]
  by (simp add: plain_args_def)

subsection \<open>Label resolver\<close>

text \<open>
  C3: the resolver is meant to pass every index without a name through unchanged.  On
  the code the guard \<^verbatim>\<open>i < n_labels\<close> has no lower bound, so a negative index reaches
  \<^verbatim>\<open>args.label[i]\<close>: below \<open>-len(L)\<close> the lookup raises \<^verbatim>\<open>IndexError\<close>, and from
  \<open>-len(L)\<close> to \<open>-1\<close> it names a label counted from the end.
\<close>

theorem label_lambda_negative_index:
  "label_lambda [''neg'', ''pos''] (- 3) = Inl IndexError \<and>
   label_lambda [''neg'', ''pos''] (- 1) = Inr (PStr ''pos'') \<and>
   make_label (plain_args\<lparr>arg_label := Some [''neg'', ''pos'']\<rparr>) (- 3) = Inl IndexError"
  by (simp add: label_lambda_def py_index_def make_label_def truthy_def plain_args_def)

lemma label_lambda_nonneg:
  "0 \<le> i \<Longrightarrow> label_lambda L i = (if i < int (length L) then Inr (PStr (L ! nat i)) else Inr (PInt i))"
  by (simp add: label_lambda_def py_index_def Let_def)

subsection \<open>Scores in batch mode\<close>

text \<open>
  C5: \<^verbatim>\<open>get_scores\<close> returns what \<^verbatim>\<open>predict_proba\<close> returns when the pipeline has
  it; for a pipeline without \<^verbatim>\<open>predict_proba\<close> but with \<^verbatim>\<open>decision_function\<close> it
  returns what \<^verbatim>\<open>decision_function\<close> returns, and no error comes out.
\<close>

theorem get_scores_fallback:
  "(predict_proba p = Some f \<and> f (index d) = Inr s \<longrightarrow>
      get_scores p d w = (Inr s, log_call (CallPredictProba (index d)) w)) \<and>
   (predict_proba p = None \<and> decision_function p = Some g \<and> g (index d) = Inr s \<longrightarrow>
      get_scores p d w =
        (Inr s, log_call (CallDecisionFunction (index d)) (log_call (CallPredictProba (index d)) w)))"
  by (simp add: get_scores_def call_method_def propagate_def is_attribute_error_def Let_def)

theorem get_scores_fallback_witness:
  "get_scores proba_pipeline sample_data empty_world =
     (Inr (replicate 3 (Vec [Finite False 1 (- 2), Finite False 3 (- 2)])),
      \<lparr> stdout = [], calls = [CallPredictProba [4, 7, 9]] \<rparr>) \<and>
   get_scores svm_pipeline sample_data empty_world =
     (Inr (replicate 3 (Scalar (Finite True 3 (- 1)))),
      \<lparr> stdout = [], calls = [CallPredictProba [4, 7, 9], CallDecisionFunction [4, 7, 9]] \<rparr>)"
  using get_scores_fallback [where p = proba_pipeline and d = sample_data and w = empty_world
          and f = "\<lambda>X. Inr (map (\<lambda>r. Vec [Finite False 1 (- 2), Finite False 3 (- 2)]) X)"
          and s = "replicate 3 (Vec [Finite False 1 (- 2), Finite False 3 (- 2)])"]
        get_scores_fallback [where p = svm_pipeline and d = sample_data and w = empty_world
          and g = "\<lambda>X. Inr (map (\<lambda>r. Scalar (Finite True 3 (- 1))) X)"
          and s = "replicate 3 (Scalar (Finite True 3 (- 1)))"]
  by (simp add: proba_pipeline_def svm_pipeline_def sample_data_def empty_world_def log_call_def
        numeral_3_eq_3)

subsection \<open>Usage errors\<close>

text \<open>
  C6: batch mode without an index file, batch mode with more than one index file, and
  stream mode without a vocabulary each end in a \<^verbatim>\<open>ValueError\<close> that reaches the caller
  of \<^verbatim>\<open>predict_labels\<close>; nothing has been loaded or printed, and nothing is retried.
\<close>

theorem usage_errors:
  "(\<not> arg_text a \<and> \<not> truthy (arg_index a) \<longrightarrow>
      predict_labels env a w = (Inl (ValueError ''missing input data file (inverted index)''), w)) \<and>
   (\<not> arg_text a \<and> arg_index a = Some idx \<and> 1 < length idx \<longrightarrow>
      predict_labels env a w = (Inl (ValueError ''more than one input data file (inverted index)''), w)) \<and>
   (arg_text a \<and> arg_vocabulary a = None \<longrightarrow>
      predict_labels env a w =
        (Inl (ValueError ''missing required option for text input: --vocabulary VOCAB''), w))"
  by (auto simp: predict_labels_def batch_predictor_def stream_predictor_def truthy_def)

theorem usage_errors_witness:
  "predict_labels (sample_env svm_pipeline) plain_args empty_world =
     (Inl (ValueError ''missing input data file (inverted index)''), empty_world) \<and>
   predict_labels (sample_env svm_pipeline) (plain_args\<lparr>arg_index := Some []\<rparr>) empty_world =
     (Inl (ValueError ''missing input data file (inverted index)''), empty_world) \<and>
   predict_labels (sample_env svm_pipeline) (plain_args\<lparr>arg_index := Some [''a.idx'', ''b.idx'']\<rparr>) empty_world =
     (Inl (ValueError ''more than one input data file (inverted index)''), empty_world) \<and>
   predict_labels (sample_env svm_pipeline) (plain_args\<lparr>arg_text := True\<rparr>) empty_world =
     (Inl (ValueError ''missing required option for text input: --vocabulary VOCAB''), empty_world)"
  using usage_errors [where a = plain_args and env = "sample_env svm_pipeline" and w = empty_world]
        usage_errors [where a = "plain_args\<lparr>arg_index := Some []\<rparr>"
          and env = "sample_env svm_pipeline" and w = empty_world]
        usage_errors [where a = "plain_args\<lparr>arg_index := Some [''a.idx'', ''b.idx'']\<rparr>"
          and idx = "[''a.idx'', ''b.idx'']" and env = "sample_env svm_pipeline" and w = empty_world]
        usage_errors [where a = "plain_args\<lparr>arg_text := True\<rparr>"
          and env = "sample_env svm_pipeline" and w = empty_world]
  by (simp add: plain_args_def truthy_def)

subsection \<open>Synthesized identifiers\<close>

text \<open>
  C10: data that carries an empty identifier list is treated as data that carries none:
  the identifiers are the counter 1..N, N the number of rows.
\<close>

theorem empty_text_ids_synthesized:
  "text_ids d = Some [] \<or> text_ids d = None \<Longrightarrow>
   get_or_make_text_ids env d = map PInt [1 .. get_n_rows env d]"
  by (auto simp: get_or_make_text_ids_def truthy_def)

theorem empty_text_ids_synthesized_witness:
  "get_or_make_text_ids (sample_env svm_pipeline) (sample_data\<lparr>text_ids := Some []\<rparr>) =
     [PInt 1, PInt 2, PInt 3] \<and>
   get_or_make_text_ids (sample_env svm_pipeline) sample_data = [PInt 1, PInt 2, PInt 3]"
  using empty_text_ids_synthesized [where d = "sample_data\<lparr>text_ids := Some []\<rparr>"
          and env = "sample_env svm_pipeline"]
        empty_text_ids_synthesized [where d = sample_data and env = "sample_env svm_pipeline"]
  by (simp add: sample_data_def sample_env_def upto.simps)

subsection \<open>Score formatting\<close>

lemma digit_char_is_digit: "d < 10 \<Longrightarrow> is_digit (digit_char d)"
proof -
  assume "d < 10"
  then have "d \<in> {0, 1, 2, 3, 4, 5, 6, 7, 8, 9}" by auto
  then show ?thesis
    by (auto simp: digit_char_def is_digit_def)
qed

lemma str_nat_digits: "list_all is_digit (str_nat n)"
proof (induction n rule: str_nat.induct)
  case (1 n)
  show ?case
  proof (cases "n < 10")
    case True
    then show ?thesis by (subst str_nat.simps) (simp add: digit_char_is_digit)
  next
    case False
    with 1 show ?thesis by (subst str_nat.simps) (simp add: digit_char_is_digit)
  qed
qed

lemma str_nat_not_Nil: "str_nat n \<noteq> []"
  by (subst str_nat.simps) simp

lemma frac8_digits: "length (frac8 n) = 8 \<and> list_all is_digit (frac8 n)"
  by (simp add: frac8_def digit_char_is_digit)

lemma not_digit_point: "\<not> is_digit (CHR ''.'')"
  by (simp add: is_digit_def)

lemma takeWhile_int_part: "takeWhile is_digit (str_nat k @ CHR ''.'' # rest) = str_nat k"
  using str_nat_digits [of k]
  by (simp add: takeWhile_append2 list_all_iff not_digit_point)

lemma fixed8_shape: "fixed8 (sign_char neg # str_nat k @ ''.'' @ frac8 j)"
  using frac8_digits [of j] str_nat_not_Nil [of k]
  by (simp add: fixed8_def takeWhile_int_part Let_def sign_char_def)

lemma fixed8_finite: "fixed8 (format_score (Finite neg m e))"
  by (simp only: format_score.simps fixed8_shape)

lemma is_digit_not_tab: "is_digit c \<Longrightarrow> c \<noteq> TAB"
  by (auto simp: is_digit_def)

lemma format_score_no_tab: "TAB \<notin> set (format_score s)"
proof (cases s)
  case (Finite neg m e)
  have "\<forall>c \<in> set (str_nat (scaled8 m e div 10 ^ 8)). c \<noteq> TAB"
    using str_nat_digits [of "scaled8 m e div 10 ^ 8"] is_digit_not_tab
    by (auto simp: list_all_iff)
  moreover have "\<forall>c \<in> set (frac8 (scaled8 m e mod 10 ^ 8)). c \<noteq> TAB"
    using frac8_digits [of "scaled8 m e mod 10 ^ 8"] is_digit_not_tab
    by (auto simp: list_all_iff)
  ultimately show ?thesis using Finite by (auto simp: sign_char_def)
next
  case (Infinite neg)
  then show ?thesis by (simp add: sign_char_def)
next
  case NaN
  then show ?thesis by simp
qed

lemma tabs_format_score: "filter (\<lambda>c. c = TAB) (format_score s) = []"
  using format_score_no_tab [of s] by (auto simp: filter_empty_conv)

lemma tabs_py_join:
  "fs \<noteq> [] \<Longrightarrow> length (filter (\<lambda>c. c = TAB) (py_join [TAB] (map format_score fs))) = length fs - 1"
proof (induction fs rule: induct_list012)
  case 1
  then show ?case by simp
next
  case (2 x)
  then show ?case by (simp add: tabs_format_score)
next
  case (3 x y zs)
  then show ?case by (simp add: tabs_format_score)
qed

lemma digit_value_digit_char: "d < 10 \<Longrightarrow> digit_value (digit_char d) = d"
proof -
  assume "d < 10"
  then have "d \<in> {0, 1, 2, 3, 4, 5, 6, 7, 8, 9}" by auto
  then show ?thesis
    by (auto simp: digit_char_def digit_value_def)
qed

lemma digits_value_snoc: "digits_value (ds @ [c]) = 10 * digits_value ds + digit_value c"
  by (simp add: digits_value_def)

lemma digits_value_str_nat: "digits_value (str_nat n) = n"
proof (induction n rule: str_nat.induct)
  case (1 n)
  show ?case
  proof (cases "n < 10")
    case True
    then show ?thesis
      by (subst str_nat.simps) (simp add: digits_value_def digit_value_digit_char)
  next
    case False
    with 1 show ?thesis
      by (subst str_nat.simps) (simp add: digits_value_snoc digit_value_digit_char)
  qed
qed

lemma frac_step: "(n::nat) mod (10 ^ k * 10) = 10 ^ k * (n div 10 ^ k mod 10) + n mod 10 ^ k"
  by (rule mod_mult2_eq)

lemma low_digits_value:
  "foldl (\<lambda>acc c. 10 * acc + digit_value c) a
     (map (\<lambda>k. digit_char (n div 10 ^ k mod 10)) (rev [0..<j])) = a * 10 ^ j + n mod 10 ^ j"
proof (induction j arbitrary: a)
  case 0
  then show ?case by simp
next
  case (Suc j)
  let ?f = "\<lambda>acc c. 10 * acc + digit_value c"
  let ?g = "\<lambda>k. digit_char (n div 10 ^ k mod 10)"
  have step: "n mod 10 ^ Suc j = 10 ^ j * (n div 10 ^ j mod 10) + n mod 10 ^ j"
    using frac_step [of n j] by (simp add: mult.commute)
  have "foldl ?f a (map ?g (rev [0..<Suc j])) =
        foldl ?f (10 * a + n div 10 ^ j mod 10) (map ?g (rev [0..<j]))"
    by (simp add: digit_value_digit_char)
  also have "\<dots> = (10 * a + n div 10 ^ j mod 10) * 10 ^ j + n mod 10 ^ j"
    by (rule Suc.IH)
  also have "\<dots> = a * 10 ^ Suc j + n mod 10 ^ Suc j"
    using step by (simp add: algebra_simps)
  finally show ?case .
qed

lemma rev_upt_8: "rev [0..<8] = [7, 6, 5, 4, 3, 2, 1, 0::nat]"
  by (simp add: upt_rec)

lemma frac8_value: "digits_value (ip @ frac8 n) = digits_value ip * 10 ^ 8 + n mod 10 ^ 8"
  using low_digits_value [of "digits_value ip" n 8]
  by (simp only: digits_value_def foldl_append frac8_def rev_upt_8)

lemma printed_value:
  "digits_value (str_nat (q div 10 ^ 8) @ frac8 (q mod 10 ^ 8)) = q"
  by (simp only: frac8_value digits_value_str_nat mod_mod_trivial div_mult_mod_eq)

lemma round_half_even_nearest:
  "0 < den \<Longrightarrow>
   2 * \<bar>int (round_half_even num den) * int den - int num\<bar> \<le> int den"
proof -
  assume pos: "0 < den"
  let ?q = "num div den" and ?r = "num mod den"
  have num: "int num = int ?q * int den + int ?r"
    by (metis div_mult_mod_eq of_nat_add of_nat_mult)
  have r: "int ?r < int den" using pos by simp
  show ?thesis
  proof (cases "den < 2 * ?r \<or> (2 * ?r = den \<and> odd ?q)")
    case True
    then have "round_half_even num den = ?q + 1" by (simp add: round_half_even_def Let_def)
    then have "int (round_half_even num den) * int den - int num = int den - int ?r"
      using num by (simp add: algebra_simps)
    with True r show ?thesis by auto
  next
    case False
    then have "round_half_even num den = ?q" by (simp add: round_half_even_def Let_def)
    then have "int (round_half_even num den) * int den - int num = - int ?r"
      using num by simp
    with False show ?thesis by auto
  qed
qed

lemma scaled8_nearest:
  "(0 \<le> e \<longrightarrow> int (scaled8 m e) = int m * 2 ^ nat e * 10 ^ 8) \<and>
   (e < 0 \<longrightarrow> 2 * \<bar>int (scaled8 m e) * 2 ^ nat (- e) - int m * 10 ^ 8\<bar> \<le> 2 ^ nat (- e))"
  using round_half_even_nearest [of "2 ^ nat (- e)" "m * 10 ^ 8"]
  by (simp add: scaled8_def)

text \<open>
  C9, as stated, fails for a score that is not finite: a NaN is rendered \<^verbatim>\<open>' nan'\<close>,
  which has no decimals at all.
\<close>

theorem score_str_nan_counterexample:
  "\<not> fixed8 (score_str (Scalar NaN))"
  by (simp add: score_str_def fixed8_def is_digit_def)

text \<open>
  C9, amended: a single float is formatted as the one-element sequence and gives exactly
  one field, and the formatted scores of a sequence are joined with tabs, one field each.
  Every finite score is rendered with fixed 8-decimal precision and explicit sign: the
  first character is a minus when the sign bit is set and a space otherwise, then come
  the integer digits, a point and exactly eight decimals, and the digits read back are
  the magnitude times \<open>10\<^sup>8\<close> rounded to the nearest integer (exact when the
  exponent is not negative).  A NaN is rendered \<^verbatim>\<open>' nan'\<close> and the infinities
  \<^verbatim>\<open>' inf'\<close> and \<^verbatim>\<open>'-inf'\<close>.
\<close>

theorem score_str_format:
  "score_str (Scalar s) = format_score s \<and>
   n_fields (score_str (Scalar s)) = 1 \<and>
   score_str (Vec ss) = py_join [TAB] (map format_score ss) \<and>
   (ss \<noteq> [] \<longrightarrow> n_fields (score_str (Vec ss)) = length ss) \<and>
   fixed8 (format_score (Finite neg m e)) \<and>
   hd (format_score (Finite neg m e)) = (if neg then CHR ''-'' else CHR '' '') \<and>
   (\<exists>ip fp. tl (format_score (Finite neg m e)) = ip @ ''.'' @ fp \<and> length fp = 8 \<and>
       digits_value (ip @ fp) = scaled8 m e) \<and>
   (0 \<le> e \<longrightarrow> int (scaled8 m e) = int m * 2 ^ nat e * 10 ^ 8) \<and>
   (e < 0 \<longrightarrow> 2 * \<bar>int (scaled8 m e) * 2 ^ nat (- e) - int m * 10 ^ 8\<bar> \<le> 2 ^ nat (- e)) \<and>
   format_score NaN = '' nan'' \<and>
   format_score (Infinite False) = '' inf'' \<and>
   format_score (Infinite True) = ''-inf''"
proof -
  let ?q = "scaled8 m e"
  have "tl (format_score (Finite neg m e)) = str_nat (?q div 10 ^ 8) @ ''.'' @ frac8 (?q mod 10 ^ 8)"
    by (simp del: power_numeral)
  moreover have "length (frac8 (?q mod 10 ^ 8)) = 8" by (simp add: frac8_def)
  moreover have "digits_value (str_nat (?q div 10 ^ 8) @ frac8 (?q mod 10 ^ 8)) = ?q"
    by (rule printed_value)
  ultimately have read: "\<exists>ip fp. tl (format_score (Finite neg m e)) = ip @ ''.'' @ fp \<and> length fp = 8 \<and>
       digits_value (ip @ fp) = ?q"
    by blast
  have sign: "hd (format_score (Finite neg m e)) = (if neg then CHR ''-'' else CHR '' '')"
    by (simp add: sign_char_def)
  have fields: "n_fields (score_str (Scalar s)) = 1"
    "ss \<noteq> [] \<longrightarrow> n_fields (score_str (Vec ss)) = length ss"
    using tabs_py_join [of ss]
    by (cases "ss = []"; simp add: score_str_def n_fields_def tabs_format_score del: format_score.simps)+
  have shape: "score_str (Scalar s) = format_score s"
    "score_str (Vec ss) = py_join [TAB] (map format_score ss)"
    by (simp_all add: score_str_def)
  have nonfinite: "format_score NaN = '' nan''" "format_score (Infinite False) = '' inf''"
    "format_score (Infinite True) = ''-inf''"
    by (simp_all add: sign_char_def)
  show ?thesis
    using shape fields fixed8_finite [of neg m e] sign read scaled8_nearest [of e m] nonfinite
    by blast
qed

theorem score_str_format_witness:
  "score_str (Scalar (Finite False 1 (- 1))) = '' 0.50000000'' \<and>
   n_fields (score_str (Scalar (Finite False 1 (- 1)))) = 1 \<and>
   score_str (Vec [Finite False 3602879701896397 (- 55), Finite True 9 (- 1)]) =
     '' 0.10000000'' @ [TAB] @ ''-4.50000000'' \<and>
   n_fields (score_str (Vec [Finite False 3602879701896397 (- 55), Finite True 9 (- 1)])) = 2 \<and>
   fixed8 (format_score (Finite True 9 (- 1))) \<and>
   hd (format_score (Finite True 9 (- 1))) = CHR ''-'' \<and>
   scaled8 9 (- 1) = 450000000 \<and>
   2 * \<bar>int (scaled8 9 (- 1)) * 2 - 9 * 10 ^ 8\<bar> \<le> (2::int) \<and>
   format_score NaN = '' nan''"
  using score_str_format [of "Finite False 1 (- 1)" "[Finite False 3602879701896397 (- 55), Finite True 9 (- 1)]" True 9 "- 1"]
  by (simp add: score_str_def scaled8_def round_half_even_def frac8_def digit_char_def str_nat.simps sign_char_def)

subsection \<open>Loading the pipeline\<close>

lemma loads_emit: "loads (emit s w) = loads w"
  by (simp add: loads_def emit_def)

lemma loads_log_call: "loads (log_call c w) = (if is_load c then Suc (loads w) else loads w)"
  by (simp add: loads_def log_call_def)

lemma loads_fetch_scores: "loads (snd (fetch_scores p f np w)) = loads w"
  by (simp add: fetch_scores_def loads_log_call is_load_def Let_def split: sum.splits)

lemma loads_append_scores: "loads (snd (append_scores p f np w)) = loads w"
proof (cases "fetch_scores p f np w")
  case (Pair r w')
  with loads_fetch_scores [of p f np w] show ?thesis
    by (auto simp: append_scores_def loads_emit split: sum.splits)
qed

lemma loads_predict_row: "loads (snd (predict_row p a here np row w)) = loads w"
  by (cases row)
     (simp add: predict_row_def loads_log_call loads_emit loads_append_scores is_load_def Let_def
        split: sum.splits)

lemma loads_predict_rows: "loads (snd (predict_rows p a here np rows w)) = loads w"
proof (induction rows arbitrary: w)
  case Nil
  then show ?case by simp
next
  case (Cons item rows)
  show ?case
  proof (cases item)
    case (Inl e)
    then show ?thesis by simp
  next
    case (Inr row)
    obtain r w' where step: "predict_row p a here np row w = (r, w')"
      by (cases "predict_row p a here np row w")
    with loads_predict_row [of p a here np row w] have "loads w' = loads w" by simp
    with Cons.IH [of w'] step Inr show ?thesis
      by (cases r) simp_all
  qed
qed

lemma loads_predict_from: "loads (snd (predict_from env text a vocab w)) = Suc (loads w)"
  by (simp add: predict_from_def Let_def loads_predict_rows loads_log_call is_load_def
        split: sum.splits)

lemma loads_predict_files:
  "predict_files env dialect a vocab files w = (Inr u, w') \<Longrightarrow> loads w' = loads w + length files"
proof (induction files arbitrary: w)
  case Nil
  then show ?case by simp
next
  case (Cons f fs)
  let ?gen = "row_generator_from_file env f dialect (arg_encoding a)"
  obtain r w1 where step: "predict_from env ?gen a vocab w = (r, w1)"
    by (cases "predict_from env ?gen a vocab w")
  with loads_predict_from [of env ?gen a vocab w] have l1: "loads w1 = Suc (loads w)" by simp
  from Cons.prems step obtain u1 where "r = Inr u1" and "predict_files env dialect a vocab fs w1 = (Inr u, w')"
    by (cases r) simp_all
  with Cons.IH [of w1] l1 show ?case by simp
qed

lemma loads_report_rows: "loads (snd (report_rows mk zs w)) = loads w"
  by (induction mk zs w rule: report_rows.induct) (simp_all add: loads_emit split: sum.splits)

lemma loads_report_score_rows: "loads (snd (report_score_rows mk zs w)) = loads w"
  by (induction mk zs w rule: report_score_rows.induct) (simp_all add: loads_emit Let_def split: sum.splits)

lemma loads_get_scores: "loads (snd (get_scores p d w)) = loads w"
  by (simp add: get_scores_def Let_def loads_log_call is_load_def split: sum.splits)

lemma loads_get_scoresD: "get_scores p d w = (r, w') \<Longrightarrow> loads w' = loads w"
  using loads_get_scores [of p d w] by simp

lemma loads_batch_predictor:
  "fst (batch_predictor env a w) = Inr u \<Longrightarrow> loads (snd (batch_predictor env a w)) = Suc (loads w)"
  by (auto simp: batch_predictor_def Let_def report_labels_def report_with_scores_def
        loads_log_call is_load_def loads_report_rows loads_report_score_rows
        split: if_splits sum.splits prod.splits dest: loads_get_scoresD)

lemma loads_stream_predictor:
  "stream_predictor env a w = (Inr u, w') \<Longrightarrow>
   loads w' = loads w + (if truthy (arg_index a) then length (the (arg_index a)) else 1)"
proof -
  assume run: "stream_predictor env a w = (Inr u, w')"
  then obtain path vocabulary where v: "arg_vocabulary a = Some path"
      "load_vocabulary env path = Inr vocabulary"
    by (auto simp: stream_predictor_def split: option.splits sum.splits)
  let ?a = "a\<lparr>arg_annotate := fix_column_offset env (arg_annotate a),
                arg_feature := fix_column_offset env (arg_feature a)\<rparr>"
  let ?dialect = "if arg_csv a then ''excel'' else ''plain''"
  show ?thesis
  proof (cases "truthy (arg_index a)")
    case True
    with run v have "predict_files env ?dialect ?a vocabulary (the (arg_index a)) w = (Inr u, w')"
      by (simp add: stream_predictor_def Let_def)
    from loads_predict_files [OF this] True show ?thesis by simp
  next
    case False
    with run v have "predict_from env (row_generator env ?dialect) ?a vocabulary w = (Inr u, w')"
      by (simp add: stream_predictor_def Let_def)
    with loads_predict_from [of env "row_generator env ?dialect" ?a vocabulary w] False
    show ?thesis by simp
  qed
qed

lemma two_files_run:
  "predict_labels (sample_env proba_pipeline) two_files_args empty_world =
     (Inr (), \<lparr> stdout = ''t1'' @ [TAB] @ ''0'' @ [NL] @ ''t2'' @ [TAB] @ ''1'' @ [NL] @
                          ''t1'' @ [TAB] @ ''0'' @ [NL] @ ''t2'' @ [TAB] @ ''1'' @ [NL],
                calls = [JoblibLoad ''model.pkl'', CallPredict [4], CallPredict [7],
                         JoblibLoad ''model.pkl'', CallPredict [4], CallPredict [7]] \<rparr>)"
  by (simp add: predict_labels_def stream_predictor_def find_id_col_def
        sample_defs run_defs render_defs)

text \<open>
  C2, as stated, fails: a stream-mode invocation on two input files completes and has
  deserialized the model file twice, because \<^verbatim>\<open>predict_from\<close> loads it and is called
  once for each file.
\<close>

theorem pipeline_loaded_twice_counterexample:
  "fst (predict_labels (sample_env proba_pipeline) two_files_args empty_world) = Inr () \<and>
   loads (snd (predict_labels (sample_env proba_pipeline) two_files_args empty_world)) = 2"
  by (simp add: two_files_run loads_def is_load_def)

text \<open>
  C2, amended: an invocation that completes has deserialized the pipeline once for each
  input source it processed: exactly once in batch mode and in stream mode on standard
  input, and once per input file in stream mode on files (k times for k files).
\<close>

theorem pipeline_loaded_per_source:
  "predict_labels env a w = (Inr u, w') \<Longrightarrow>
   loads w' = loads w + (if arg_text a \<and> truthy (arg_index a) then length (the (arg_index a)) else 1)"
proof (cases "arg_text a")
  case True
  assume "predict_labels env a w = (Inr u, w')"
  with True have "stream_predictor env a w = (Inr u, w')" by (simp add: predict_labels_def)
  from loads_stream_predictor [OF this] True show ?thesis by simp
next
  case False
  assume "predict_labels env a w = (Inr u, w')"
  with False have "batch_predictor env a w = (Inr u, w')" by (simp add: predict_labels_def)
  with loads_batch_predictor [of env a w u] False show ?thesis by simp
qed

lemma two_files_args_fields:
  "arg_text two_files_args" "arg_index two_files_args = Some [''a.txt'', ''b.txt'']"
  by (simp_all add: two_files_args_def)

theorem pipeline_loaded_per_source_witness:
  "fst (predict_labels (sample_env proba_pipeline) two_files_args empty_world) = Inr () \<and>
   loads (snd (predict_labels (sample_env proba_pipeline) two_files_args empty_world)) =
     loads empty_world + length [''a.txt'', ''b.txt'']"
  using pipeline_loaded_per_source [OF two_files_run]
  by (simp add: two_files_run two_files_args_fields truthy_def)

subsection \<open>Batch output\<close>

lemma emit_Nil: "emit [] w = w"
  by (simp add: emit_def)

lemma emit_emit: "emit t (emit s w) = emit (s @ t) w"
  by (simp add: emit_def)

lemma stdout_emit: "stdout (emit s w) = stdout w @ s"
  by (simp add: emit_def)

lemma report_rows_ok:
  "map mk preds = map Inr labs \<Longrightarrow>
   report_rows mk (zip ids preds) w =
     (Inr (), emit (concat (map (\<lambda>(t, lab). py_str t @ [TAB] @ py_str lab @ [NL]) (zip ids labs))) w)"
proof (induction ids arbitrary: preds labs w)
  case Nil
  then show ?case by (simp add: emit_Nil)
next
  case (Cons t ids)
  show ?case
  proof (cases preds)
    case Nil
    with Cons.prems show ?thesis by (simp add: emit_Nil)
  next
    case (Cons q qs)
    with Cons.prems obtain l ls where labs: "labs = l # ls" "mk q = Inr l" "map mk qs = map Inr ls"
      by (cases labs) auto
    with Cons.IH [of qs ls] Cons show ?thesis by (simp add: emit_emit)
  qed
qed

lemma report_score_rows_ok:
  "map mk preds = map Inr labs \<Longrightarrow>
   report_score_rows mk (zip ids (zip preds scores)) w =
     (Inr (), emit (concat (map (\<lambda>(t, lab, sc). py_str t @ [TAB] @ py_str lab @ [TAB] @ score_str sc @ [NL])
                              (zip ids (zip labs scores)))) w)"
proof (induction ids arbitrary: preds labs scores w)
  case Nil
  then show ?case by (simp add: emit_Nil)
next
  case (Cons t ids)
  show ?case
  proof (cases preds)
    case Nil
    with Cons.prems show ?thesis by (simp add: emit_Nil)
  next
    case pc: (Cons q qs)
    with Cons.prems obtain l ls where labs: "labs = l # ls" "mk q = Inr l" "map mk qs = map Inr ls"
      by (cases labs) auto
    show ?thesis
    proof (cases scores)
      case Nil
      with pc labs show ?thesis by (simp add: emit_Nil)
    next
      case (Cons sc scs)
      with Cons.IH [of qs ls scs] pc labs show ?thesis by (simp add: emit_emit)
    qed
  qed
qed

lemma numbered_ids:
  "map (\<lambda>(t, r). f (py_str t) r) (zip (map PInt is) rs) = map (\<lambda>(i, r). f (str_int i) r) (zip is rs)"
  by (simp add: zip_map1 case_prod_unfold)

lemma batch_lines_resolved:
  assumes idx: "arg_index a = Some [path]"
    and data: "load_index env path = Inr d" "\<not> truthy (text_ids d)"
    and model: "joblib_load env (arg_model a) = Inr p"
    and preds: "predict p (index d) = Inr predictions" "int (length predictions) = get_n_rows env d"
    and labs: "map (make_label a) predictions = map Inr labels"
    and scs: "\<And>w'. arg_scores a \<Longrightarrow> fst (get_scores p d w') = Inr scores \<and> length scores = length predictions"
  shows "\<exists>w' lines. batch_predictor env a w = (Inr (), w') \<and>
           stdout w' = stdout w @ concat lines \<and>
           length lines = nat (get_n_rows env d) \<and>
           lines = (if arg_scores a
                    then map (\<lambda>(i, lab, sc). str_int i @ [TAB] @ py_str lab @ [TAB] @ score_str sc @ [NL])
                           (zip [1 .. get_n_rows env d] (zip labels scores))
                    else map (\<lambda>(i, lab). str_int i @ [TAB] @ py_str lab @ [NL])
                           (zip [1 .. get_n_rows env d] labels))"
proof -
  let ?N = "get_n_rows env d"
  let ?w2 = "log_call (CallPredict (index d)) (log_call (JoblibLoad (arg_model a)) w)"
  let ?plain = "map (\<lambda>(i, lab). str_int i @ [TAB] @ py_str lab @ [NL]) (zip [1 .. ?N] labels)"
  let ?scored = "map (\<lambda>(i, lab, sc). str_int i @ [TAB] @ py_str lab @ [TAB] @ score_str sc @ [NL])
                   (zip [1 .. ?N] (zip labels scores))"
  have ids: "get_or_make_text_ids env d = map PInt [1 .. ?N]"
    using data(2) by (simp add: get_or_make_text_ids_def)
  have "length labels = length predictions"
    using labs by (metis length_map)
  with preds(2) have len: "length labels = nat ?N" by simp
  have out2: "stdout ?w2 = stdout w" by (simp add: log_call_def)
  show ?thesis
  proof (cases "arg_scores a")
    case False
    have "batch_predictor env a w =
            report_rows (make_label a) (zip (map PInt [1 .. ?N]) predictions) ?w2"
      using idx data model preds False
      by (simp add: batch_predictor_def truthy_def Let_def report_labels_def ids)
    also have "\<dots> = (Inr (), emit (concat (map (\<lambda>(t, lab). py_str t @ [TAB] @ py_str lab @ [NL])
                                   (zip (map PInt [1 .. ?N]) labels))) ?w2)"
      by (rule report_rows_ok [OF labs])
    also have "map (\<lambda>(t, lab). py_str t @ [TAB] @ py_str lab @ [NL]) (zip (map PInt [1 .. ?N]) labels) = ?plain"
      by (simp add: zip_map1 case_prod_unfold comp_def)
    finally have run: "batch_predictor env a w = (Inr (), emit (concat ?plain) ?w2)" .
    have "stdout (emit (concat ?plain) ?w2) = stdout w @ concat ?plain"
      by (simp only: stdout_emit out2)
    moreover have "length ?plain = nat ?N" using len by simp
    ultimately show ?thesis using run False by (intro exI [of _ "emit (concat ?plain) ?w2"] exI [of _ ?plain]) simp
  next
    case True
    obtain r w3 where gs: "get_scores p d ?w2 = (r, w3)" by (cases "get_scores p d ?w2")
    with scs [OF True, of ?w2] have r: "r = Inr scores" and ls: "length scores = length predictions"
      by simp_all
    have out3: "stdout w3 = stdout w"
      using gs out2 by (auto simp: get_scores_def Let_def log_call_def split: sum.splits if_splits)
    have "batch_predictor env a w =
            report_score_rows (make_label a) (zip (map PInt [1 .. ?N]) (zip predictions scores)) w3"
      using idx data model preds True gs r
      by (simp add: batch_predictor_def truthy_def Let_def report_with_scores_def ids)
    also have "\<dots> = (Inr (), emit (concat (map (\<lambda>(t, lab, sc). py_str t @ [TAB] @ py_str lab @ [TAB] @ score_str sc @ [NL])
                                   (zip (map PInt [1 .. ?N]) (zip labels scores)))) w3)"
      by (rule report_score_rows_ok [OF labs])
    also have "map (\<lambda>(t, lab, sc). py_str t @ [TAB] @ py_str lab @ [TAB] @ score_str sc @ [NL])
                 (zip (map PInt [1 .. ?N]) (zip labels scores)) = ?scored"
      by (simp add: zip_map1 case_prod_unfold comp_def)
    finally have run: "batch_predictor env a w = (Inr (), emit (concat ?scored) w3)" .
    have "stdout (emit (concat ?scored) w3) = stdout w @ concat ?scored"
      by (simp only: stdout_emit out3)
    moreover have "length ?scored = nat ?N" using len ls preds(2) by simp
    ultimately show ?thesis using run True by (intro exI [of _ "emit (concat ?scored) w3"] exI [of _ ?scored]) simp
  qed
qed

lemma is_digit_not_NL: "is_digit c \<Longrightarrow> c \<noteq> NL"
  by (auto simp: is_digit_def)

lemma str_nat_no_NL: "NL \<notin> set (str_nat n)"
  using str_nat_digits [of n] is_digit_not_NL by (auto simp: list_all_iff)

lemma str_int_no_NL: "NL \<notin> set (str_int i)"
  by (simp add: str_int_def str_nat_no_NL)

lemma format_score_no_NL: "NL \<notin> set (format_score s)"
proof (cases s)
  case (Finite neg m e)
  have "NL \<notin> set (frac8 (scaled8 m e mod 10 ^ 8))"
    using frac8_digits [of "scaled8 m e mod 10 ^ 8"] is_digit_not_NL
    by (auto simp: list_all_iff)
  with Finite show ?thesis
    using str_nat_no_NL [of "scaled8 m e div 10 ^ 8"] by (auto simp: sign_char_def)
next
  case (Infinite neg)
  then show ?thesis by (simp add: sign_char_def)
next
  case NaN
  then show ?thesis by simp
qed

lemma py_join_no_NL: "\<forall>x \<in> set xs. NL \<notin> set x \<Longrightarrow> NL \<notin> set (py_join [TAB] xs)"
  by (induction xs rule: induct_list012) auto

lemma score_str_no_NL: "NL \<notin> set (score_str sc)"
  by (cases sc) (simp_all add: score_str_def py_join_no_NL format_score_no_NL)

lemma make_label_resolves:
  assumes "truthy (arg_label a) \<longrightarrow> 0 \<le> i \<and> (\<forall>name \<in> set (the (arg_label a)). NL \<notin> set name)"
  shows "\<exists>v. make_label a i = Inr v \<and> NL \<notin> set (py_str v)"
proof (cases "truthy (arg_label a)")
  case False
  then show ?thesis by (simp add: make_label_def str_int_no_NL)
next
  case True
  with assms have i: "0 \<le> i" and names: "\<forall>name \<in> set (the (arg_label a)). NL \<notin> set name"
    by blast+
  show ?thesis
  proof (cases "i < int (length (the (arg_label a)))")
    case False
    with True show ?thesis
      by (simp add: make_label_def label_lambda_def str_int_no_NL)
  next
    case less: True
    with i have "nat i < length (the (arg_label a))" by simp
    then have "the (arg_label a) ! nat i \<in> set (the (arg_label a))" by (rule nth_mem)
    with names have "NL \<notin> set (the (arg_label a) ! nat i)" by blast
    with True less i show ?thesis
      by (simp add: make_label_def label_lambda_def py_index_def)
  qed
qed

lemma make_label_resolves_all:
  "truthy (arg_label a) \<longrightarrow>
     (\<forall>i \<in> set preds. 0 \<le> i) \<and> (\<forall>name \<in> set (the (arg_label a)). NL \<notin> set name) \<Longrightarrow>
   \<exists>labels. map (make_label a) preds = map Inr labels \<and> (\<forall>v \<in> set labels. NL \<notin> set (py_str v))"
proof (induction preds)
  case Nil
  then show ?case by simp
next
  case (Cons i preds)
  then obtain labels where ls: "map (make_label a) preds = map Inr labels"
      "\<forall>v \<in> set labels. NL \<notin> set (py_str v)"
    by auto
  from Cons.prems make_label_resolves [of a i] obtain v where
    v: "make_label a i = Inr v" "NL \<notin> set (py_str v)"
    by auto
  have "map (make_label a) (i # preds) = map Inr (v # labels)" using ls v by simp
  moreover have "\<forall>u \<in> set (v # labels). NL \<notin> set (py_str u)" using ls v by simp
  ultimately show ?case by blast
qed

lemma count_lines_concat:
  "\<forall>l \<in> set lines. count_lines l = 1 \<Longrightarrow> count_lines (concat lines) = length lines"
  by (induction lines) (simp_all add: count_lines_def)

lemma count_lines_line: "NL \<notin> set body \<Longrightarrow> count_lines (body @ [NL]) = 1"
  by (auto simp: count_lines_def filter_empty_conv)

lemma get_scores_value:
  "(\<exists>h. predict_proba p = Some h \<and> h (index d) = Inr scores) \<or>
   (\<exists>g. predict_proba p = None \<and> decision_function p = Some g \<and> g (index d) = Inr scores) \<Longrightarrow>
   fst (get_scores p d w) = Inr scores"
  by (auto simp: get_scores_def call_method_def propagate_def is_attribute_error_def Let_def)

lemma sample_upto: "[1 .. 3::int] = [1, 2, 3]"
  by (simp add: upto.simps)

lemma signed_batch_run:
  "batch_predictor (sample_env signed_pipeline) labelled_args empty_world =
     (Inl IndexError,
      \<lparr> stdout = ''1'' @ [TAB] @ ''pos'' @ [NL],
        calls = [JoblibLoad ''model.pkl'', CallPredict [4, 7, 9]] \<rparr>)"
  by (simp add: sample_defs batch_defs run_defs render_defs sample_upto)

lemma multiline_batch_run:
  "batch_predictor (sample_env svm_pipeline) multiline_args empty_world =
     (Inr (),
      \<lparr> stdout = ''1'' @ [TAB] @ [CHR ''a'', NL, CHR ''b''] @ [NL] @
                 ''2'' @ [TAB] @ ''c'' @ [NL] @ ''3'' @ [TAB] @ ''c'' @ [NL],
        calls = [JoblibLoad ''model.pkl'', CallPredict [4, 7, 9]] \<rparr>)"
  by (simp add: sample_defs batch_defs run_defs render_defs sample_upto)

text \<open>
  C7, as stated, fails in two ways.  With label names supplied, a predicted index below
  \<open>-len(label)\<close> raises \<^verbatim>\<open>IndexError\<close> in the resolver (the defect of C3): for three
  rows predicted 1, -3, 0 one line is printed and the run ends.  And a label name is
  printed as it is, so a name that holds a newline gives more than one line for a row:
  four lines for three rows.
\<close>

theorem batch_lines_counterexample:
  "get_n_rows (sample_env signed_pipeline) sample_data = 3 \<and>
   text_ids sample_data = None \<and>
   fst (batch_predictor (sample_env signed_pipeline) labelled_args empty_world) = Inl IndexError \<and>
   count_lines (stdout (snd (batch_predictor (sample_env signed_pipeline) labelled_args empty_world))) = 1 \<and>
   fst (batch_predictor (sample_env svm_pipeline) multiline_args empty_world) = Inr () \<and>
   count_lines (stdout (snd (batch_predictor (sample_env svm_pipeline) multiline_args empty_world))) = 4"
  by (simp add: signed_batch_run multiline_batch_run count_lines_def)
     (simp add: sample_env_def sample_data_def)

text \<open>
  C7, amended: in batch mode, given an index file whose loaded data has N rows and carries
  no text identifiers, and a run in which the index file and the model load and the
  pipeline returns one prediction (and, with scores requested, one score row) for each
  row: if no label names are supplied, or the supplied names hold no newline and every
  predicted index is non-negative, the output contains exactly N lines, one per row in
  input row order, whose identifiers are the counter values 1..N.  Nothing is said about
  negative predicted indices when label names are supplied.
\<close>

theorem batch_numbered_lines:
  assumes idx: "arg_index a = Some [path]"
    and data: "load_index env path = Inr d" "\<not> truthy (text_ids d)"
    and model: "joblib_load env (arg_model a) = Inr p"
    and preds: "predict p (index d) = Inr predictions" "int (length predictions) = get_n_rows env d"
    and names: "truthy (arg_label a) \<longrightarrow>
                  (\<forall>i \<in> set predictions. 0 \<le> i) \<and> (\<forall>name \<in> set (the (arg_label a)). NL \<notin> set name)"
    and scs: "arg_scores a \<longrightarrow> length scores = length predictions \<and>
                ((\<exists>h. predict_proba p = Some h \<and> h (index d) = Inr scores) \<or>
                 (\<exists>g. predict_proba p = None \<and> decision_function p = Some g \<and> g (index d) = Inr scores))"
  shows "\<exists>w' labels lines. batch_predictor env a w = (Inr (), w') \<and>
           map (make_label a) predictions = map Inr labels \<and>
           stdout w' = stdout w @ concat lines \<and>
           length lines = nat (get_n_rows env d) \<and>
           count_lines (concat lines) = nat (get_n_rows env d) \<and>
           lines = (if arg_scores a
                    then map (\<lambda>(i, lab, sc). str_int i @ [TAB] @ py_str lab @ [TAB] @ score_str sc @ [NL])
                           (zip [1 .. get_n_rows env d] (zip labels scores))
                    else map (\<lambda>(i, lab). str_int i @ [TAB] @ py_str lab @ [NL])
                           (zip [1 .. get_n_rows env d] labels))"
proof -
  from make_label_resolves_all [OF names] obtain labels where
    labs: "map (make_label a) predictions = map Inr labels"
    and clean: "\<forall>v \<in> set labels. NL \<notin> set (py_str v)"
    by blast
  have sc: "arg_scores a \<Longrightarrow> fst (get_scores p d w') = Inr scores \<and> length scores = length predictions" for w'
    using scs get_scores_value [of p d scores w'] by blast
  from batch_lines_resolved [OF idx data model preds labs sc, of w] obtain w' lines where
    run: "batch_predictor env a w = (Inr (), w')"
    and out: "stdout w' = stdout w @ concat lines"
    and len: "length lines = nat (get_n_rows env d)"
    and lines: "lines = (if arg_scores a
                    then map (\<lambda>(i, lab, sc). str_int i @ [TAB] @ py_str lab @ [TAB] @ score_str sc @ [NL])
                           (zip [1 .. get_n_rows env d] (zip labels scores))
                    else map (\<lambda>(i, lab). str_int i @ [TAB] @ py_str lab @ [NL])
                           (zip [1 .. get_n_rows env d] labels))"
    by blast
  have "\<forall>l \<in> set lines. count_lines l = 1"
  proof
    fix l assume "l \<in> set lines"
    show "count_lines l = 1"
    proof (cases "arg_scores a")
      case False
      with lines \<open>l \<in> set lines\<close> obtain i lab where
        l: "l = (str_int i @ [TAB] @ py_str lab) @ [NL]" and "(i, lab) \<in> set (zip [1 .. get_n_rows env d] labels)"
        by auto
      then have "lab \<in> set labels" by (meson set_zip_rightD)
      with clean have "NL \<notin> set (str_int i @ [TAB] @ py_str lab)"
        by (simp add: str_int_no_NL)
      then show ?thesis unfolding l by (rule count_lines_line)
    next
      case True
      with lines \<open>l \<in> set lines\<close> obtain i lab sc where
        l: "l = (str_int i @ [TAB] @ py_str lab @ [TAB] @ score_str sc) @ [NL]"
        and "(i, lab, sc) \<in> set (zip [1 .. get_n_rows env d] (zip labels scores))"
        by auto
      then have "(lab, sc) \<in> set (zip labels scores)" by (meson set_zip_rightD)
      then have "lab \<in> set labels" by (meson set_zip_leftD)
      with clean have "NL \<notin> set (str_int i @ [TAB] @ py_str lab @ [TAB] @ score_str sc)"
        by (simp add: str_int_no_NL score_str_no_NL)
      then show ?thesis unfolding l by (rule count_lines_line)
    qed
  qed
  then have "count_lines (concat lines) = nat (get_n_rows env d)"
    using len by (simp add: count_lines_concat)
  with run labs out len lines show ?thesis by blast
qed

lemma batch_facts:
  "arg_index batch_args = Some [''data.idx'']"
  "load_index (sample_env svm_pipeline) ''data.idx'' = Inr sample_data"
  "\<not> truthy (text_ids sample_data)"
  "joblib_load (sample_env svm_pipeline) (arg_model batch_args) = Inr svm_pipeline"
  "predict svm_pipeline (index sample_data) = Inr [0, 1, 1]"
  "int (length [0::int, 1, 1]) = get_n_rows (sample_env svm_pipeline) sample_data"
  "truthy (arg_label batch_args) \<longrightarrow>
     (\<forall>i \<in> set [0::int, 1, 1]. 0 \<le> i) \<and> (\<forall>name \<in> set (the (arg_label batch_args)). NL \<notin> set name)"
  "arg_scores batch_args \<longrightarrow> length ([] :: score_row list) = length [0::int, 1, 1] \<and>
     ((\<exists>h. predict_proba svm_pipeline = Some h \<and> h (index sample_data) = Inr []) \<or>
      (\<exists>g. predict_proba svm_pipeline = None \<and> decision_function svm_pipeline = Some g \<and>
           g (index sample_data) = Inr []))"
  by (simp_all add: sample_defs truthy_def)

lemma scored_batch_facts:
  "arg_index scored_batch_args = Some [''data.idx'']"
  "joblib_load (sample_env svm_pipeline) (arg_model scored_batch_args) = Inr svm_pipeline"
  "truthy (arg_label scored_batch_args) \<longrightarrow>
     (\<forall>i \<in> set [0::int, 1, 1]. 0 \<le> i) \<and>
     (\<forall>name \<in> set (the (arg_label scored_batch_args)). NL \<notin> set name)"
  "arg_scores scored_batch_args \<longrightarrow>
     length [Scalar (Finite True 3 (- 1)), Scalar (Finite True 3 (- 1)), Scalar (Finite True 3 (- 1))] =
       length [0::int, 1, 1] \<and>
     ((\<exists>h. predict_proba svm_pipeline = Some h \<and> h (index sample_data) =
             Inr [Scalar (Finite True 3 (- 1)), Scalar (Finite True 3 (- 1)), Scalar (Finite True 3 (- 1))]) \<or>
      (\<exists>g. predict_proba svm_pipeline = None \<and> decision_function svm_pipeline = Some g \<and>
           g (index sample_data) =
             Inr [Scalar (Finite True 3 (- 1)), Scalar (Finite True 3 (- 1)), Scalar (Finite True 3 (- 1))]))"
  by (simp_all add: sample_defs truthy_def)

lemma sample_labels:
  "arg_scores scored_batch_args" "\<not> arg_scores batch_args"
  "make_label scored_batch_args 0 = Inr (PStr ''neg'')"
  "make_label scored_batch_args 1 = Inr (PStr ''pos'')"
  "make_label batch_args 0 = Inr (PStr ''0'')"
  "make_label batch_args 1 = Inr (PStr ''1'')"
  "get_n_rows (sample_env svm_pipeline) sample_data = 3"
  by (simp_all add: sample_defs make_label_def label_lambda_def py_index_def
        truthy_def render_defs)

theorem batch_numbered_lines_witness:
  "(\<exists>w'. batch_predictor (sample_env svm_pipeline) batch_args empty_world = (Inr (), w') \<and>
          stdout w' = ''1'' @ [TAB] @ ''0'' @ [NL] @ ''2'' @ [TAB] @ ''1'' @ [NL] @
                      ''3'' @ [TAB] @ ''1'' @ [NL] \<and>
          count_lines (stdout w') = 3) \<and>
   (\<exists>w'. batch_predictor (sample_env svm_pipeline) scored_batch_args empty_world = (Inr (), w') \<and>
          stdout w' = ''1'' @ [TAB] @ ''neg'' @ [TAB] @ ''-1.50000000'' @ [NL] @
                      ''2'' @ [TAB] @ ''pos'' @ [TAB] @ ''-1.50000000'' @ [NL] @
                      ''3'' @ [TAB] @ ''pos'' @ [TAB] @ ''-1.50000000'' @ [NL] \<and>
          count_lines (stdout w') = 3)"
proof
  from batch_numbered_lines [where env = "sample_env svm_pipeline" and a = batch_args
      and w = empty_world and scores = "[]", OF batch_facts]
  obtain w' labels lines where
    run: "batch_predictor (sample_env svm_pipeline) batch_args empty_world = (Inr (), w')"
    and labels: "map (make_label batch_args) [0, 1, 1] = map Inr labels"
    and out: "stdout w' = stdout empty_world @ concat lines"
    and n: "count_lines (concat lines) = nat (get_n_rows (sample_env svm_pipeline) sample_data)"
    and lines: "lines = (if arg_scores batch_args
                    then map (\<lambda>(i, lab, sc). str_int i @ [TAB] @ py_str lab @ [TAB] @ score_str sc @ [NL])
                           (zip [1 .. get_n_rows (sample_env svm_pipeline) sample_data] (zip labels []))
                    else map (\<lambda>(i, lab). str_int i @ [TAB] @ py_str lab @ [NL])
                           (zip [1 .. get_n_rows (sample_env svm_pipeline) sample_data] labels))"
    by blast
  from labels have "labels = [PStr ''0'', PStr ''1'', PStr ''1'']"
    by (auto simp: sample_labels)
  with lines have "concat lines = ''1'' @ [TAB] @ ''0'' @ [NL] @ ''2'' @ [TAB] @ ''1'' @ [NL] @
                      ''3'' @ [TAB] @ ''1'' @ [NL]"
    by (simp add: sample_labels sample_upto render_defs)
  with run out n show "\<exists>w'. batch_predictor (sample_env svm_pipeline) batch_args empty_world = (Inr (), w') \<and>
          stdout w' = ''1'' @ [TAB] @ ''0'' @ [NL] @ ''2'' @ [TAB] @ ''1'' @ [NL] @
                      ''3'' @ [TAB] @ ''1'' @ [NL] \<and>
          count_lines (stdout w') = 3"
    by (simp add: sample_labels empty_world_def)
next
  let ?scores = "[Scalar (Finite True 3 (- 1)), Scalar (Finite True 3 (- 1)), Scalar (Finite True 3 (- 1))]"
  from batch_numbered_lines [where env = "sample_env svm_pipeline" and a = scored_batch_args
      and w = empty_world and scores = ?scores,
      OF scored_batch_facts(1) batch_facts(2,3) scored_batch_facts(2) batch_facts(5,6)
         scored_batch_facts(3,4)]
  obtain w' labels lines where
    run: "batch_predictor (sample_env svm_pipeline) scored_batch_args empty_world = (Inr (), w')"
    and labels: "map (make_label scored_batch_args) [0, 1, 1] = map Inr labels"
    and out: "stdout w' = stdout empty_world @ concat lines"
    and n: "count_lines (concat lines) = nat (get_n_rows (sample_env svm_pipeline) sample_data)"
    and lines: "lines = (if arg_scores scored_batch_args
                    then map (\<lambda>(i, lab, sc). str_int i @ [TAB] @ py_str lab @ [TAB] @ score_str sc @ [NL])
                           (zip [1 .. get_n_rows (sample_env svm_pipeline) sample_data] (zip labels ?scores))
                    else map (\<lambda>(i, lab). str_int i @ [TAB] @ py_str lab @ [NL])
                           (zip [1 .. get_n_rows (sample_env svm_pipeline) sample_data] labels))"
    by blast
  from labels have "labels = [PStr ''neg'', PStr ''pos'', PStr ''pos'']"
    by (auto simp: sample_labels)
  with lines have "concat lines = ''1'' @ [TAB] @ ''neg'' @ [TAB] @ ''-1.50000000'' @ [NL] @
                      ''2'' @ [TAB] @ ''pos'' @ [TAB] @ ''-1.50000000'' @ [NL] @
                      ''3'' @ [TAB] @ ''pos'' @ [TAB] @ ''-1.50000000'' @ [NL]"
    by (simp add: sample_labels sample_upto render_defs)
  with run out n show "\<exists>w'. batch_predictor (sample_env svm_pipeline) scored_batch_args empty_world = (Inr (), w') \<and>
          stdout w' = ''1'' @ [TAB] @ ''neg'' @ [TAB] @ ''-1.50000000'' @ [NL] @
                      ''2'' @ [TAB] @ ''pos'' @ [TAB] @ ''-1.50000000'' @ [NL] @
                      ''3'' @ [TAB] @ ''pos'' @ [TAB] @ ''-1.50000000'' @ [NL] \<and>
          count_lines (stdout w') = 3"
    by (simp add: sample_labels empty_world_def)
qed

subsection \<open>The single-prediction assertion\<close>

lemma predict_rows_append:
  "predict_rows p a here np (xs @ ys) w =
     (case predict_rows p a here np xs w of
        (Inl e, w') \<Rightarrow> (Inl e, w')
      | (Inr u, w') \<Rightarrow> predict_rows p a here np ys w')"
proof (induction xs arbitrary: w)
  case Nil
  then show ?case by simp
next
  case (Cons item xs)
  show ?case
  proof (cases item)
    case (Inl e)
    then show ?thesis by simp
  next
    case (Inr row)
    with Cons.IH show ?thesis
      by (simp split: prod.splits sum.splits)
  qed
qed

lemma make_label_no_assertion: "make_label a i \<noteq> Inl (AssertionError msg)"
  by (simp add: make_label_def label_lambda_def py_index_def Let_def split: sum.splits)

lemma call_method_no_assertion: "call_method m X \<noteq> Inl (AssertionError msg)"
  by (simp add: call_method_def propagate_def split: option.splits sum.splits)

lemma indexed_call_no_assertion: "indexed_call m X \<noteq> Inl (AssertionError msg)"
  using call_method_no_assertion [of m X msg]
  by (auto simp: indexed_call_def first_row_def split: sum.splits list.splits)

lemma fetch_scores_no_assertion: "fst (fetch_scores p f np w) \<noteq> Inl (AssertionError msg)"
  using indexed_call_no_assertion [of "predict_proba p" f msg]
        indexed_call_no_assertion [of "decision_function p" f msg]
  by (auto simp: fetch_scores_def Let_def split: sum.splits if_splits)

lemma append_scores_no_assertion: "fst (append_scores p f np w) \<noteq> Inl (AssertionError msg)"
  using fetch_scores_no_assertion [of p f np w msg]
  by (auto simp: append_scores_def split: prod.splits sum.splits)

lemma predict_row_no_assertion:
  "\<forall>pr. predict p f = Inr pr \<longrightarrow> length pr = 1 \<Longrightarrow>
   fst (predict_row p a here np (tid, f) w) \<noteq> Inl (AssertionError msg)"
  by (auto simp: predict_row_def Let_def make_label_no_assertion append_scores_no_assertion
        split: sum.splits)

lemma predict_rows_no_assertion:
  "\<forall>tid f pr. Inr (tid, f) \<in> set rows \<and> predict p f = Inr pr \<longrightarrow> length pr = 1 \<Longrightarrow>
   fst (predict_rows p a here np rows w) \<noteq> Inl (AssertionError msg)"
proof (induction rows arbitrary: w)
  case Nil
  then show ?case by simp
next
  case (Cons item rows)
  show ?case
  proof (cases item)
    case (Inl e)
    then show ?thesis by simp
  next
    case (Inr row)
    obtain tid f where row: "row = (tid, f)" by (cases row)
    obtain r w' where step: "predict_row p a here np (tid, f) w = (r, w')"
      by (cases "predict_row p a here np (tid, f) w")
    have "\<forall>pr. predict p f = Inr pr \<longrightarrow> length pr = 1"
      using Cons.prems Inr row by auto
    then have "fst (predict_row p a here np (tid, f) w) \<noteq> Inl (AssertionError msg)"
      by (rule predict_row_no_assertion)
    with step have r: "r \<noteq> Inl (AssertionError msg)" by simp
    have "\<forall>tid f pr. Inr (tid, f) \<in> set rows \<and> predict p f = Inr pr \<longrightarrow> length pr = 1"
      using Cons.prems by auto
    then have "fst (predict_rows p a here np rows w') \<noteq> Inl (AssertionError msg)"
      by (rule Cons.IH)
    with r step Inr row show ?thesis by (cases r) simp_all
  qed
qed

text \<open>
  C8: in stream mode, when the rows before a row have been processed and \<^verbatim>\<open>predict\<close>
  answers that row with a result that does not hold exactly one prediction, the run ends
  there in the \<^verbatim>\<open>AssertionError\<close> of the driver: nothing is printed for the row and the
  rows after it are not read.  When \<^verbatim>\<open>predict\<close> answers every row with exactly one
  prediction, no run ends in that assertion.
\<close>

theorem single_prediction_assertion:
  "(joblib_load env (arg_model a) = Inr p \<and>
    feature_encoder env gen a vocab (find_id_col a) = pre @ Inr (text_id, features) # post \<and>
    predict_rows p a (if arg_scores a then [TAB] else [NL]) False pre
      (log_call (JoblibLoad (arg_model a)) w) = (Inr (), w1) \<and>
    predict p features = Inr prediction \<and> length prediction \<noteq> 1 \<longrightarrow>
      predict_from env gen a vocab w =
        (Inl (AssertionError (''not a single prediction: '' @ shape_str prediction)),
         log_call (CallPredict features) w1)) \<and>
   (joblib_load env (arg_model a) = Inr p \<and>
    (\<forall>tid f pr. Inr (tid, f) \<in> set (feature_encoder env gen a vocab (find_id_col a)) \<and>
                 predict p f = Inr pr \<longrightarrow> length pr = 1) \<longrightarrow>
      fst (predict_from env gen a vocab w) \<noteq> Inl (AssertionError msg))"
proof (intro conjI impI)
  let ?here = "if arg_scores a then [TAB] else [NL]"
  let ?w0 = "log_call (JoblibLoad (arg_model a)) w"
  let ?failure = "(Inl (AssertionError (''not a single prediction: '' @ shape_str prediction)),
                   log_call (CallPredict features) w1)"
  assume h: "joblib_load env (arg_model a) = Inr p \<and>
    feature_encoder env gen a vocab (find_id_col a) = pre @ Inr (text_id, features) # post \<and>
    predict_rows p a ?here False pre ?w0 = (Inr (), w1) \<and>
    predict p features = Inr prediction \<and> length prediction \<noteq> 1"
  then have model: "joblib_load env (arg_model a) = Inr p"
    and stream: "feature_encoder env gen a vocab (find_id_col a) = pre @ Inr (text_id, features) # post"
    and pre: "predict_rows p a ?here False pre ?w0 = (Inr (), w1)"
    and pr: "predict p features = Inr prediction" "length prediction \<noteq> 1"
    by blast+
  have "predict_row p a ?here False (text_id, features) w1 = ?failure"
    using pr by (simp add: predict_row_def Let_def)
  then have "predict_rows p a ?here False (pre @ Inr (text_id, features) # post) ?w0 = ?failure"
    by (simp add: predict_rows_append pre)
  then show "predict_from env gen a vocab w = ?failure"
    using model stream by (simp add: predict_from_def Let_def)
next
  assume h: "joblib_load env (arg_model a) = Inr p \<and>
    (\<forall>tid f pr. Inr (tid, f) \<in> set (feature_encoder env gen a vocab (find_id_col a)) \<and>
                 predict p f = Inr pr \<longrightarrow> length pr = 1)"
  then have model: "joblib_load env (arg_model a) = Inr p"
    and single: "\<forall>tid f pr. Inr (tid, f) \<in> set (feature_encoder env gen a vocab (find_id_col a)) \<and>
                   predict p f = Inr pr \<longrightarrow> length pr = 1"
    by blast+
  have "fst (predict_rows p a (if arg_scores a then [TAB] else [NL]) False
          (feature_encoder env gen a vocab (find_id_col a))
          (log_call (JoblibLoad (arg_model a)) w)) \<noteq> Inl (AssertionError msg)"
    using single by (rule predict_rows_no_assertion)
  with model show "fst (predict_from env gen a vocab w) \<noteq> Inl (AssertionError msg)"
    by (simp add: predict_from_def Let_def)
qed

lemma faulty_facts:
  "joblib_load (sample_env faulty_pipeline) (arg_model stream_args) = Inr faulty_pipeline"
  "feature_encoder (sample_env faulty_pipeline) ''stdin'' stream_args () (find_id_col stream_args) =
     [Inr (PStr ''t1'', [4])] @ Inr (PStr ''t2'', [7]) # []"
  "predict_rows faulty_pipeline stream_args (if arg_scores stream_args then [TAB] else [NL]) False
     [Inr (PStr ''t1'', [4])] (log_call (JoblibLoad (arg_model stream_args)) empty_world) =
     (Inr (), \<lparr> stdout = ''t1'' @ [TAB] @ ''0'' @ [NL],
                calls = [JoblibLoad ''model.pkl'', CallPredict [4]] \<rparr>)"
  "predict faulty_pipeline [7] = Inr [0, 1]"
  "length [0::int, 1] \<noteq> 1"
  by (simp_all add: sample_defs run_defs render_defs)

lemma proba_facts:
  "joblib_load (sample_env proba_pipeline) (arg_model stream_args) = Inr proba_pipeline"
  "\<forall>tid f pr. Inr (tid, f) \<in> set (feature_encoder (sample_env proba_pipeline) ''stdin'' stream_args ()
                                     (find_id_col stream_args)) \<and>
               predict proba_pipeline f = Inr pr \<longrightarrow> length pr = 1"
  by (auto simp: sample_defs)

theorem single_prediction_assertion_witness:
  "predict_from (sample_env faulty_pipeline) ''stdin'' stream_args () empty_world =
     (Inl (AssertionError ''not a single prediction: (2,)''),
      \<lparr> stdout = ''t1'' @ [TAB] @ ''0'' @ [NL],
        calls = [JoblibLoad ''model.pkl'', CallPredict [4], CallPredict [7]] \<rparr>) \<and>
   fst (predict_from (sample_env proba_pipeline) ''stdin'' stream_args () empty_world) \<noteq>
     Inl (AssertionError ''not a single prediction: (2,)'')"
proof
  let ?w1 = "\<lparr> stdout = ''t1'' @ [TAB] @ ''0'' @ [NL],
                calls = [JoblibLoad ''model.pkl'', CallPredict [4]] \<rparr> :: nat list world"
  have "predict_from (sample_env faulty_pipeline) ''stdin'' stream_args () empty_world =
          (Inl (AssertionError (''not a single prediction: '' @ shape_str [0, 1])),
           log_call (CallPredict [7]) ?w1)"
    using single_prediction_assertion [where env = "sample_env faulty_pipeline" and a = stream_args
            and p = faulty_pipeline and gen = "''stdin''" and vocab = "()"
            and pre = "[Inr (PStr ''t1'', [4])]" and w = empty_world and ?w1.0 = ?w1
            and features = "[7]" and prediction = "[0, 1]" and text_id = "PStr ''t2''"
            and post = "[]", THEN conjunct1]
          faulty_facts
    by blast
  then show "predict_from (sample_env faulty_pipeline) ''stdin'' stream_args () empty_world =
     (Inl (AssertionError ''not a single prediction: (2,)''),
      \<lparr> stdout = ''t1'' @ [TAB] @ ''0'' @ [NL],
        calls = [JoblibLoad ''model.pkl'', CallPredict [4], CallPredict [7]] \<rparr>)"
    by (simp add: shape_str_def str_nat.simps digit_char_def log_call_def)
next
  show "fst (predict_from (sample_env proba_pipeline) ''stdin'' stream_args () empty_world) \<noteq>
     Inl (AssertionError ''not a single prediction: (2,)'')"
    using single_prediction_assertion [where env = "sample_env proba_pipeline" and a = stream_args
            and p = proba_pipeline and gen = "''stdin''" and vocab = "()" and w = empty_world
            and msg = "''not a single prediction: (2,)''", THEN conjunct2]
          proba_facts
    by blast
qed

subsection \<open>Scores in stream mode\<close>

lemma proba_attempts_append: "proba_attempts (xs @ ys) = proba_attempts xs @ proba_attempts ys"
  by (induction xs) (simp_all split: call.splits)

lemma fallback_follows_mono: "fallback_follows None cs \<Longrightarrow> fallback_follows q cs"
  by (cases cs) (auto split: call.splits)

lemma fallback_follows_append:
  "fallback_follows q xs \<Longrightarrow> fallback_follows None ys \<Longrightarrow> fallback_follows q (xs @ ys)"
proof (induction xs arbitrary: q)
  case Nil
  then show ?case by (simp add: fallback_follows_mono)
next
  case (Cons c xs)
  then show ?case by (cases c) auto
qed

lemma calls_emit: "calls (emit s w) = calls w"
  by (simp add: emit_def)

lemma calls_log_call: "calls (log_call c w) = calls w @ [c]"
  by (simp add: log_call_def)

lemma fetch_scores_calls:
  "fetch_scores p f False w = (r, w') \<Longrightarrow>
   calls w' = calls w @ [CallPredictProba f] \<or>
   calls w' = calls w @ [CallPredictProba f, CallDecisionFunction f]"
  by (auto simp: fetch_scores_def Let_def calls_log_call split: sum.splits if_splits)

lemma append_scores_calls:
  "append_scores p f False w = (r, w') \<Longrightarrow>
   calls w' = calls w @ [CallPredictProba f] \<or>
   calls w' = calls w @ [CallPredictProba f, CallDecisionFunction f]"
proof -
  assume run: "append_scores p f False w = (r, w')"
  obtain r0 w0 where fs: "fetch_scores p f False w = (r0, w0)"
    by (cases "fetch_scores p f False w")
  with run have "calls w' = calls w0"
    by (auto simp: append_scores_def calls_emit split: sum.splits prod.splits)
  with fetch_scores_calls [OF fs] show ?thesis by simp
qed

lemma predict_row_calls:
  "predict_row p a here False (tid, f) w = (r, w') \<Longrightarrow>
   \<exists>new. calls w' = calls w @ new \<and> fallback_follows None new \<and>
         (arg_scores a \<and> r = Inr () \<longrightarrow> proba_attempts new = [f])"
proof -
  assume run: "predict_row p a here False (tid, f) w = (r, w')"
  show ?thesis
  proof (cases "arg_scores a \<and> (\<exists>x lab. predict p f = Inr [x] \<and> make_label a x = Inr lab)")
    case False
    with run have "calls w' = calls w @ [CallPredict f]" "\<not> (arg_scores a \<and> r = Inr ())"
      by (auto simp: predict_row_def Let_def calls_log_call calls_emit length_Suc_conv
            split: sum.splits if_splits)
    then show ?thesis by simp
  next
    case True
    then obtain x lab where ok: "arg_scores a" "predict p f = Inr [x]" "make_label a x = Inr lab"
      by blast
    let ?w2 = "emit (py_str tid @ [TAB] @ py_str lab @ here) (log_call (CallPredict f) w)"
    from run ok have "append_scores p f False ?w2 = (r, w')"
      by (simp add: predict_row_def Let_def)
    from append_scores_calls [OF this]
    have "calls w' = calls w @ [CallPredict f, CallPredictProba f] \<or>
          calls w' = calls w @ [CallPredict f, CallPredictProba f, CallDecisionFunction f]"
      by (simp add: calls_emit calls_log_call)
    then show ?thesis by auto
  qed
qed

lemma predict_rows_calls:
  "predict_rows p a here False rows w = (r, w') \<Longrightarrow>
   \<exists>new. calls w' = calls w @ new \<and> fallback_follows None new \<and>
         (arg_scores a \<and> r = Inr () \<longrightarrow> proba_attempts new = row_features rows)"
proof (induction rows arbitrary: w)
  case Nil
  then show ?case by auto
next
  case (Cons item rows)
  show ?case
  proof (cases item)
    case (Inl e)
    with Cons.prems show ?thesis by auto
  next
    case (Inr row)
    obtain tid f where row: "row = (tid, f)" by (cases row)
    obtain r1 w1 where step: "predict_row p a here False (tid, f) w = (r1, w1)"
      by (cases "predict_row p a here False (tid, f) w")
    from predict_row_calls [OF step] obtain new1 where
      n1: "calls w1 = calls w @ new1" "fallback_follows None new1"
          "arg_scores a \<and> r1 = Inr () \<longrightarrow> proba_attempts new1 = [f]"
      by blast
    show ?thesis
    proof (cases r1)
      case (Inl e)
      with Cons.prems step Inr row have "r = Inl e" "w' = w1" by simp_all
      with n1 show ?thesis by auto
    next
      case r1: (Inr u)
      with Cons.prems step Inr row have "predict_rows p a here False rows w1 = (r, w')" by simp
      from Cons.IH [OF this] obtain new2 where
        n2: "calls w' = calls w1 @ new2" "fallback_follows None new2"
            "arg_scores a \<and> r = Inr () \<longrightarrow> proba_attempts new2 = row_features rows"
        by blast
      have "calls w' = calls w @ (new1 @ new2)" using n1(1) n2(1) by simp
      moreover have "fallback_follows None (new1 @ new2)"
        using n1(2) n2(2) by (rule fallback_follows_append)
      moreover have "arg_scores a \<and> r = Inr () \<longrightarrow> proba_attempts (new1 @ new2) = row_features (item # rows)"
        using n1(3) n2(3) r1 Inr row by (simp add: proba_attempts_append)
      ultimately show ?thesis by blast
    qed
  qed
qed

lemma calls_of_run:
  "arg_scores a \<Longrightarrow> predict_from env gen a vocab w = (r, w') \<Longrightarrow>
   \<exists>new. calls w' = calls w @ new \<and> fallback_follows None new \<and>
         (r = Inr () \<longrightarrow>
            proba_attempts new = row_features (feature_encoder env gen a vocab (find_id_col a)))"
proof -
  assume sc: "arg_scores a" and run: "predict_from env gen a vocab w = (r, w')"
  let ?w0 = "log_call (JoblibLoad (arg_model a)) w"
  let ?stream = "feature_encoder env gen a vocab (find_id_col a)"
  show ?thesis
  proof (cases "joblib_load env (arg_model a)")
    case (Inl e)
    with run have "calls w' = calls w @ [JoblibLoad (arg_model a)]" "r \<noteq> Inr ()"
      by (auto simp: predict_from_def Let_def calls_log_call)
    then show ?thesis by simp
  next
    case (Inr p)
    with run sc have "predict_rows p a [TAB] False ?stream ?w0 = (r, w')"
      by (simp add: predict_from_def Let_def)
    from predict_rows_calls [OF this] sc obtain new where
      n: "calls w' = calls ?w0 @ new" "fallback_follows None new"
         "r = Inr () \<longrightarrow> proba_attempts new = row_features ?stream"
      by blast
    then have "calls w' = calls w @ (JoblibLoad (arg_model a) # new)"
      "fallback_follows None (JoblibLoad (arg_model a) # new)"
      "r = Inr () \<longrightarrow> proba_attempts (JoblibLoad (arg_model a) # new) = row_features ?stream"
      by (simp_all add: calls_log_call)
    then show ?thesis by blast
  qed
qed

lemma append_scores_fallback:
  "predict_proba p = None \<Longrightarrow> decision_function p = Some g \<Longrightarrow> g f = Inr (s # ss) \<Longrightarrow>
   append_scores p f False w =
     (Inr (), emit (score_str s @ [NL])
                (log_call (CallDecisionFunction f) (log_call (CallPredictProba f) w)))"
  by (simp add: append_scores_def fetch_scores_def indexed_call_def call_method_def
        propagate_def first_row_def is_attribute_error_def Let_def)

lemma append_scores_proba:
  "predict_proba p = Some h \<Longrightarrow> h f = Inr (s # ss) \<Longrightarrow>
   append_scores p f False w =
     (Inr (), emit (score_str s @ [NL]) (log_call (CallPredictProba f) w))"
  by (simp add: append_scores_def fetch_scores_def indexed_call_def call_method_def
        propagate_def first_row_def Let_def)

lemma predict_rows_grows:
  "\<exists>new. calls (snd (predict_rows p a here False rows w)) = calls w @ new"
  using predict_rows_calls [of p a here rows w "fst (predict_rows p a here False rows w)"
          "snd (predict_rows p a here False rows w)"]
  by auto

text \<open>
  C4: in stream mode with scores requested the fallback is not remembered across rows.
  Take any row that the loop reaches with a single prediction, whatever happened in the
  rows before it and however the run ends.  If its label does not resolve, the run ends
  there and the score helper is not called.  Otherwise the call on the pipeline right
  after its \<^verbatim>\<open>predict\<close> is an attempt of \<^verbatim>\<open>predict_proba\<close> on that row.  When the pipeline has no \<^verbatim>\<open>predict_proba\<close>, \<^verbatim>\<open>decision_function\<close> is called
  within the same call of the score helper, its score is printed, and the rows after it
  are processed with \<^verbatim>\<open>no_proba\<close> still \<^verbatim>\<open>False\<close>; when the pipeline has
  \<^verbatim>\<open>predict_proba\<close>, its score is printed and \<^verbatim>\<open>decision_function\<close> is not called.
  In every run each call of \<^verbatim>\<open>decision_function\<close> comes directly after an attempt of
  \<^verbatim>\<open>predict_proba\<close> on the same row, and a run that completes has attempted
  \<^verbatim>\<open>predict_proba\<close> on every row of the stream, in order.
\<close>

theorem proba_attempted_every_row:
  assumes scores: "arg_scores a"
  shows
  "(predict_from env gen a vocab w = (r, w') \<longrightarrow>
      (\<exists>new. calls w' = calls w @ new \<and> fallback_follows None new \<and>
         (r = Inr () \<longrightarrow>
            proba_attempts new = row_features (feature_encoder env gen a vocab (find_id_col a))))) \<and>
   (joblib_load env (arg_model a) = Inr p \<and>
    feature_encoder env gen a vocab (find_id_col a) = pre @ Inr (text_id, features) # post \<and>
    predict_rows p a [TAB] False pre (log_call (JoblibLoad (arg_model a)) w) = (Inr (), w1) \<and>
    predict p features = Inr [x] \<longrightarrow>
      (make_label a x = Inl e \<longrightarrow>
         predict_from env gen a vocab w = (Inl e, log_call (CallPredict features) w1)) \<and>
      (make_label a x = Inr lab \<and>
       w2 = emit (py_str text_id @ [TAB] @ py_str lab @ [TAB]) (log_call (CallPredict features) w1) \<longrightarrow>
         (\<exists>rest. calls (snd (predict_from env gen a vocab w)) =
                   calls w1 @ CallPredict features # CallPredictProba features # rest) \<and>
         (predict_proba p = None \<and> decision_function p = Some g \<and> g features = Inr (s # ss) \<longrightarrow>
            predict_from env gen a vocab w =
              predict_rows p a [TAB] False post
                (emit (score_str s @ [NL])
                   (log_call (CallDecisionFunction features)
                      (log_call (CallPredictProba features) w2)))) \<and>
         (predict_proba p = Some h \<and> h features = Inr (s # ss) \<longrightarrow>
            predict_from env gen a vocab w =
              predict_rows p a [TAB] False post
                (emit (score_str s @ [NL]) (log_call (CallPredictProba features) w2)))))"
proof (intro conjI impI)
  assume "predict_from env gen a vocab w = (r, w')"
  from calls_of_run [OF scores this]
  show "\<exists>new. calls w' = calls w @ new \<and> fallback_follows None new \<and>
         (r = Inr () \<longrightarrow>
            proba_attempts new = row_features (feature_encoder env gen a vocab (find_id_col a)))" .
next
  assume h: "joblib_load env (arg_model a) = Inr p \<and>
    feature_encoder env gen a vocab (find_id_col a) = pre @ Inr (text_id, features) # post \<and>
    predict_rows p a [TAB] False pre (log_call (JoblibLoad (arg_model a)) w) = (Inr (), w1) \<and>
    predict p features = Inr [x]"
  then have model: "joblib_load env (arg_model a) = Inr p"
    and stream: "feature_encoder env gen a vocab (find_id_col a) = pre @ Inr (text_id, features) # post"
    and pre: "predict_rows p a [TAB] False pre (log_call (JoblibLoad (arg_model a)) w) = (Inr (), w1)"
    and single: "predict p features = Inr [x]"
    by blast+
  have at_row: "predict_from env gen a vocab w =
      (case predict_row p a [TAB] False (text_id, features) w1 of
         (Inl e, w') \<Rightarrow> (Inl e, w')
       | (Inr u, w') \<Rightarrow> predict_rows p a [TAB] False post w')"
    using model stream scores pre
    by (simp add: predict_from_def Let_def predict_rows_append)
  show "predict_from env gen a vocab w = (Inl e, log_call (CallPredict features) w1)"
    if "make_label a x = Inl e"
    using that single at_row by (simp add: predict_row_def Let_def)
  assume resolved: "make_label a x = Inr lab \<and>
       w2 = emit (py_str text_id @ [TAB] @ py_str lab @ [TAB]) (log_call (CallPredict features) w1)"
  then have body: "predict_row p a [TAB] False (text_id, features) w1 = append_scores p features False w2"
    using single scores by (simp add: predict_row_def Let_def)
  have run: "predict_from env gen a vocab w =
      (case append_scores p features False w2 of
         (Inl e, w') \<Rightarrow> (Inl e, w')
       | (Inr u, w') \<Rightarrow> predict_rows p a [TAB] False post w')"
    using at_row body by simp
  have c2: "calls w2 = calls w1 @ [CallPredict features]"
    using resolved by (simp add: calls_emit calls_log_call)
  obtain r3 w3 where sc: "append_scores p features False w2 = (r3, w3)"
    by (cases "append_scores p features False w2")
  from append_scores_calls [OF sc] c2 obtain mid where
    c3: "calls w3 = calls w1 @ CallPredict features # CallPredictProba features # mid"
    by auto
  show "\<exists>rest. calls (snd (predict_from env gen a vocab w)) =
                calls w1 @ CallPredict features # CallPredictProba features # rest"
  proof (cases r3)
    case (Inl e)
    with run sc c3 show ?thesis by simp
  next
    case (Inr u)
    from predict_rows_grows [of p a "[TAB]" post w3] obtain new where
      "calls (snd (predict_rows p a [TAB] False post w3)) = calls w3 @ new"
      by blast
    with Inr run sc c3 show ?thesis by simp
  qed
  show "predict_from env gen a vocab w =
           predict_rows p a [TAB] False post
             (emit (score_str s @ [NL])
                (log_call (CallDecisionFunction features) (log_call (CallPredictProba features) w2)))"
    if "predict_proba p = None \<and> decision_function p = Some g \<and> g features = Inr (s # ss)"
    using that run by (simp add: append_scores_fallback)
  show "predict_from env gen a vocab w =
           predict_rows p a [TAB] False post
             (emit (score_str s @ [NL]) (log_call (CallPredictProba features) w2))"
    if "predict_proba p = Some h \<and> h features = Inr (s # ss)"
    using that run by (simp add: append_scores_proba)
qed

lemma scored_args_scores: "arg_scores scored_args"
  by (simp add: scored_args_def)

lemma empty_world_calls: "calls empty_world = []"
  by (simp add: empty_world_def)

lemma scored_stream_rows:
  "row_features (feature_encoder (sample_env svm_pipeline) ''stdin'' scored_args ()
     (find_id_col scored_args)) = [[4], [7]]"
  by (simp add: sample_env_def sample_rows_def)

lemma fallback_row_facts:
  "joblib_load (sample_env svm_pipeline) (arg_model scored_args) = Inr svm_pipeline"
  "feature_encoder (sample_env svm_pipeline) ''stdin'' scored_args () (find_id_col scored_args) =
     [Inr (PStr ''t1'', [4])] @ Inr (PStr ''t2'', [7]) # []"
  "predict_rows svm_pipeline scored_args [TAB] False [Inr (PStr ''t1'', [4])]
     (log_call (JoblibLoad (arg_model scored_args)) empty_world) =
     (Inr (), \<lparr> stdout = ''t1'' @ [TAB] @ ''0'' @ [TAB] @ ''-1.50000000'' @ [NL],
                calls = [JoblibLoad ''model.pkl'',
                         CallPredict [4], CallPredictProba [4], CallDecisionFunction [4]] \<rparr>)"
  "predict svm_pipeline [7] = Inr [1]"
  "make_label scored_args 1 = Inr (PStr ''1'')"
  "predict_proba svm_pipeline = None"
  "decision_function svm_pipeline = Some (\<lambda>X. Inr (map (\<lambda>r. Scalar (Finite True 3 (- 1))) X))"
  "(\<lambda>X. Inr (map (\<lambda>r. Scalar (Finite True 3 (- 1))) X)) [7::nat] =
     (Inr (Scalar (Finite True 3 (- 1)) # []) :: exn + score_row list)"
  by (simp_all add: sample_defs run_defs render_defs)

theorem proba_attempted_every_row_witness:
  "arg_scores scored_args \<and>
   predict_from (sample_env svm_pipeline) ''stdin'' scored_args () empty_world =
     (Inr (), \<lparr> stdout = ''t1'' @ [TAB] @ ''0'' @ [TAB] @ ''-1.50000000'' @ [NL] @
                          ''t2'' @ [TAB] @ ''1'' @ [TAB] @ ''-1.50000000'' @ [NL],
                calls = [JoblibLoad ''model.pkl'',
                         CallPredict [4], CallPredictProba [4], CallDecisionFunction [4],
                         CallPredict [7], CallPredictProba [7], CallDecisionFunction [7]] \<rparr>) \<and>
   proba_attempts (calls (snd (predict_from (sample_env svm_pipeline) ''stdin'' scored_args () empty_world))) =
     [[4], [7]] \<and>
   fallback_follows None
     (calls (snd (predict_from (sample_env svm_pipeline) ''stdin'' scored_args () empty_world)))"
proof -
  let ?w1 = "\<lparr> stdout = ''t1'' @ [TAB] @ ''0'' @ [TAB] @ ''-1.50000000'' @ [NL],
                calls = [JoblibLoad ''model.pkl'',
                         CallPredict [4], CallPredictProba [4], CallDecisionFunction [4]] \<rparr> :: nat list world"
  let ?w2 = "emit (py_str (PStr ''t2'') @ [TAB] @ py_str (PStr ''1'') @ [TAB]) (log_call (CallPredict [7]) ?w1)"
  note inst = proba_attempted_every_row [OF scored_args_scores,
      where env = "sample_env svm_pipeline" and gen = "''stdin''" and vocab = "()"
        and w = empty_world and p = svm_pipeline and pre = "[Inr (PStr ''t1'', [4])]"
        and text_id = "PStr ''t2''" and features = "[7]" and post = "[]" and ?w1.0 = ?w1
        and x = 1 and lab = "PStr ''1''" and ?w2.0 = ?w2 and e = IndexError
        and g = "\<lambda>X. Inr (map (\<lambda>r. Scalar (Finite True 3 (- 1))) X)"
        and h = "\<lambda>X. Inr []" and s = "Scalar (Finite True 3 (- 1))" and ss = "[]"]
  have "predict_from (sample_env svm_pipeline) ''stdin'' scored_args () empty_world =
          predict_rows svm_pipeline scored_args [TAB] False []
            (emit (score_str (Scalar (Finite True 3 (- 1))) @ [NL])
               (log_call (CallDecisionFunction [7]) (log_call (CallPredictProba [7]) ?w2)))"
    using inst [THEN conjunct2] fallback_row_facts by blast
  then have run: "predict_from (sample_env svm_pipeline) ''stdin'' scored_args () empty_world =
     (Inr (), \<lparr> stdout = ''t1'' @ [TAB] @ ''0'' @ [TAB] @ ''-1.50000000'' @ [NL] @
                          ''t2'' @ [TAB] @ ''1'' @ [TAB] @ ''-1.50000000'' @ [NL],
                calls = [JoblibLoad ''model.pkl'',
                         CallPredict [4], CallPredictProba [4], CallDecisionFunction [4],
                         CallPredict [7], CallPredictProba [7], CallDecisionFunction [7]] \<rparr>)"
    by (simp add: emit_def log_call_def render_defs)
  from inst [THEN conjunct1, rule_format, OF run]
  have "proba_attempts (calls (snd (predict_from (sample_env svm_pipeline) ''stdin'' scored_args () empty_world))) =
     [[4], [7]] \<and>
   fallback_follows None
     (calls (snd (predict_from (sample_env svm_pipeline) ''stdin'' scored_args () empty_world)))"
    by (simp add: run scored_stream_rows empty_world_calls)
  with run scored_args_scores show ?thesis by blast
qed

end
